theory Spec2Isabelle
  imports Main "HOL-Library.Char_ord" "HOL-Library.List_Lexorder" "HOL-Library.Product_Lexorder"
begin

section \<open>Python string primitives\<close>

text \<open>
  A Python \<open>str\<close> is modelled as a \<open>string\<close>; a \<open>char\<close> stands for a code point in
  the range 0..255. \<open>ord\<close> is Python's \<open>ord\<close>.
\<close>

definition ord :: "char \<Rightarrow> nat" where
  "ord c = of_char c"

text \<open>The class \<open>[A-Za-z]\<close> of the regular expressions in the source.\<close>

definition is_letter :: "char \<Rightarrow> bool" where
  "is_letter c = ((65 \<le> ord c \<and> ord c \<le> 90) \<or> (97 \<le> ord c \<and> ord c \<le> 122))"

text \<open>The class \<open>\d\<close>, and \<open>str.isdigit\<close> on one character of 0..127.\<close>

definition is_digit :: "char \<Rightarrow> bool" where
  "is_digit c = (48 \<le> ord c \<and> ord c \<le> 57)"

text \<open>
  Whitespace as \<open>str.isspace\<close>, \<open>str.strip()\<close>, \<open>str.split()\<close> and the class \<open>\s\<close>
  see it on code points 0..255: tab, line feed, vertical tab, form feed, carriage
  return, the separators 0x1C..0x1F, space, 0x85 and 0xA0.
\<close>

definition is_space :: "char \<Rightarrow> bool" where
  "is_space c = ((9 \<le> ord c \<and> ord c \<le> 13) \<or> (28 \<le> ord c \<and> ord c \<le> 32)
                 \<or> ord c = 133 \<or> ord c = 160)"

text \<open>\<open>s.startswith(p)\<close>.\<close>

fun startswith :: "string \<Rightarrow> string \<Rightarrow> bool" where
  "startswith s [] = True"
| "startswith [] (p # ps) = False"
| "startswith (c # cs) (p # ps) = (c = p \<and> startswith cs ps)"

text \<open>\<open>s.endswith(p)\<close>.\<close>

definition endswith :: "string \<Rightarrow> string \<Rightarrow> bool" where
  "endswith s p = startswith (rev s) (rev p)"

text \<open>\<open>p in s\<close>: the substring test.\<close>

fun contains :: "string \<Rightarrow> string \<Rightarrow> bool" where
  "contains p [] = (p = [])"
| "contains p (c # cs) = (startswith (c # cs) p \<or> contains p cs)"

text \<open>
  \<open>s.count(p)\<close>: the number of non-overlapping occurrences, found from left to
  right; for the empty pattern Python gives \<open>len(s) + 1\<close>.
\<close>

function count_sub :: "string \<Rightarrow> string \<Rightarrow> nat" where
  "count_sub [] p = (if p = [] then 1 else 0)"
| "count_sub (c # cs) p =
     (if p = [] then length (c # cs) + 1
      else if startswith (c # cs) p then Suc (count_sub (drop (length p) (c # cs)) p)
      else count_sub cs p)"
  by pat_completeness auto
termination
  by (relation "measure (\<lambda>(s, p). length s)") (auto simp: neq_Nil_conv)

text \<open>\<open>s.split(sep)\<close> for a one-character separator: empty pieces are kept.\<close>

fun split_on :: "char \<Rightarrow> string \<Rightarrow> string list" where
  "split_on sep [] = [[]]"
| "split_on sep (c # cs) =
     (if c = sep then [] # split_on sep cs
      else (case split_on sep cs of
              [] \<Rightarrow> [[c]]
            | l # ls \<Rightarrow> (c # l) # ls))"

text \<open>\<open>s.strip()\<close>.\<close>

definition strip :: "string \<Rightarrow> string" where
  "strip s = rev (dropWhile is_space (rev (dropWhile is_space s)))"

text \<open>\<open>s.split()\<close>: the maximal runs of non-whitespace characters.\<close>

fun split_ws_acc :: "string \<Rightarrow> string \<Rightarrow> string list" where
  "split_ws_acc cur [] = (if cur = [] then [] else [rev cur])"
| "split_ws_acc cur (c # cs) =
     (if is_space c then (if cur = [] then split_ws_acc [] cs else rev cur # split_ws_acc [] cs)
      else split_ws_acc (c # cur) cs)"

definition split_ws :: "string \<Rightarrow> string list" where
  "split_ws s = split_ws_acc [] s"

text \<open>\<open>sep.join(parts)\<close>.\<close>

fun join :: "string \<Rightarrow> string list \<Rightarrow> string" where
  "join sep [] = []"
| "join sep [p] = p"
| "join sep (p # q # ps) = p @ sep @ join sep (q # ps)"

text \<open>\<open>s.lower()\<close> on the letters A..Z; other characters of 0..127 are unchanged.\<close>

definition lower_char :: "char \<Rightarrow> char" where
  "lower_char c =
     (case map_of (zip ''ABCDEFGHIJKLMNOPQRSTUVWXYZ'' ''abcdefghijklmnopqrstuvwxyz'') c of
        Some l \<Rightarrow> l
      | None \<Rightarrow> c)"

definition lower :: "string \<Rightarrow> string" where
  "lower s = map lower_char s"

section \<open>Regular expressions\<close>

text \<open>
  The patterns the source gives to \<open>re.match\<close> are built from character classes,
  sequence and repetition. \<open>re_match r s\<close> holds when some prefix of \<open>s\<close> is matched
  by \<open>r\<close>, which is when \<open>re.match\<close> returns a match object. It is computed with
  derivatives.
\<close>

datatype rx = Zero | Eps | Cls "char \<Rightarrow> bool" | Seq rx rx | Alt rx rx | Star rx

definition Plus :: "rx \<Rightarrow> rx" where
  "Plus r = Seq r (Star r)"

fun nullable :: "rx \<Rightarrow> bool" where
  "nullable Zero = False"
| "nullable Eps = True"
| "nullable (Cls P) = False"
| "nullable (Seq r s) = (nullable r \<and> nullable s)"
| "nullable (Alt r s) = (nullable r \<or> nullable s)"
| "nullable (Star r) = True"

fun seq :: "rx \<Rightarrow> rx \<Rightarrow> rx" where
  "seq Zero s = Zero"
| "seq Eps s = s"
| "seq r s = Seq r s"

fun alt :: "rx \<Rightarrow> rx \<Rightarrow> rx" where
  "alt Zero s = s"
| "alt r Zero = r"
| "alt r s = Alt r s"

fun deriv :: "char \<Rightarrow> rx \<Rightarrow> rx" where
  "deriv c Zero = Zero"
| "deriv c Eps = Zero"
| "deriv c (Cls P) = (if P c then Eps else Zero)"
| "deriv c (Seq r s) =
     (if nullable r then alt (seq (deriv c r) s) (deriv c s) else seq (deriv c r) s)"
| "deriv c (Alt r s) = alt (deriv c r) (deriv c s)"
| "deriv c (Star r) = seq (deriv c r) (Star r)"

fun re_match :: "rx \<Rightarrow> string \<Rightarrow> bool" where
  "re_match r [] = nullable r"
| "re_match r (c # cs) = (nullable r \<or> re_match (deriv c r) cs)"

section \<open>Text Validity Oracle: \<open>is_valid_doc_text\<close>\<close>

definition suspicious_patterns :: "string list" where
  "suspicious_patterns =
     [''@Unknown'', ''Times N'', [CHR 0x00], [CHR ''}'', CHR 0x00, CHR ''{'']]"

definition ms_patterns :: "string list" where
  "ms_patterns = [''Microsoft Word'', ''Microsoft Office'']"

definition prison_keywords :: "string list" where
  "prison_keywords =
     [''Prison'', ''CNA'', ''Capacity'', ''Population'', ''Report Date'', ''Operational'']"

text \<open>
  The test of the generator counting the strange characters:
  \<open>ord(char) > 127 or (ord(char) < 32 and char not in '\n\t\r')\<close>.
\<close>

definition strange_char :: "char \<Rightarrow> bool" where
  "strange_char c = (ord c > 127 \<or> (ord c < 32 \<and> c \<notin> set [CHR 0x0A, CHR 0x09, CHR 0x0D]))"

text \<open>The pattern \<open>^[A-Za-z][A-Za-z\s]+\s+\d+\s+\d+\<close>.\<close>

definition data_like_pattern :: rx where
  "data_like_pattern =
     Seq (Cls is_letter)
       (Seq (Plus (Cls (\<lambda>c. is_letter c \<or> is_space c)))
         (Seq (Plus (Cls is_space))
           (Seq (Plus (Cls is_digit))
             (Seq (Plus (Cls is_space)) (Plus (Cls is_digit))))))"

text \<open>
  The source compares the quotient \<open>non_ascii_count / len(text)\<close> with \<open>0.20\<close>; the
  model compares \<open>5 * non_ascii_count\<close> with the length, which is the same test on every
  text shorter than 10^15 characters.
\<close>

definition is_valid_doc_text :: "string \<Rightarrow> bool" where
  "is_valid_doc_text text =
     (if text = [] \<or> length text < 100 then False
      else
        let non_ascii_count = length (filter strange_char text) in
        if 5 * non_ascii_count > length text then False
        else
          let ms_pattern_count = sum_list (map (count_sub text) ms_patterns) in
          if ms_pattern_count > 3 \<or> list_ex (\<lambda>pattern. contains pattern text) suspicious_patterns
          then False
          else if \<not> list_ex (\<lambda>keyword. contains keyword text) prison_keywords then
            (let lines = split_on (CHR 0x0A) text;
                 data_like_lines = filter (re_match data_like_pattern) lines
             in if length data_like_lines < 5 then False else True)
          else True)"

text \<open>The acceptance condition as the specification words it.\<close>

definition spec_is_valid :: "string \<Rightarrow> bool" where
  "spec_is_valid text =
     (length text \<ge> 100
      \<and> 5 * length (filter strange_char text) \<le> length text
      \<and> count_sub text ''Microsoft Word'' + count_sub text ''Microsoft Office'' \<le> 3
      \<and> \<not> list_ex (\<lambda>pattern. contains pattern text) suspicious_patterns
      \<and> (list_ex (\<lambda>keyword. contains keyword text) prison_keywords
         \<or> length (filter (re_match data_like_pattern) (split_on (CHR 0x0A) text)) \<ge> 5))"

section \<open>Tables\<close>

text \<open>
  A date is (year, month, day). A cell of a data frame is missing (\<open>None\<close>, \<open>NaN\<close>,
  \<open>pd.NA\<close>, \<open>NaT\<close>), a string, a number or a date. The numbers are those
  \<open>pandas.to_numeric\<close> produces; the coercion itself is library code and is a parameter
  \<open>coerce\<close> of the functions that call it (\<open>None\<close> where \<open>errors='coerce'\<close> gives NaN).
\<close>

type_synonym date = "nat \<times> nat \<times> nat"

datatype 'n cell = Null | Str string | Num 'n | Day date

record 'n df =
  columns :: "string list"
  rows :: "'n cell list list"

text \<open>\<open>pd.DataFrame()\<close> and \<open>df.empty\<close>.\<close>

definition empty_df :: "'n df" where
  "empty_df = \<lparr>columns = [], rows = []\<rparr>"

definition df_empty :: "'n df \<Rightarrow> bool" where
  "df_empty d = (columns d = [] \<or> rows d = [])"

text \<open>The positions of a label among the columns, and the cell of a row under a label.\<close>

definition positions :: "string \<Rightarrow> string list \<Rightarrow> nat list" where
  "positions col cols = filter (\<lambda>i. cols ! i = col) [0..<length cols]"

definition cell_at :: "string list \<Rightarrow> string \<Rightarrow> 'n cell list \<Rightarrow> 'n cell" where
  "cell_at cols col r =
     (case positions col cols of [] \<Rightarrow> Null | i # _ \<Rightarrow> (if i < length r then r ! i else Null))"

text \<open>\<open>df[col] = value\<close>: the column is overwritten where it exists and appended otherwise.\<close>

definition set_column :: "string \<Rightarrow> 'n cell \<Rightarrow> 'n df \<Rightarrow> 'n df" where
  "set_column col v d =
     (if col \<in> set (columns d)
      then d\<lparr>rows := map (\<lambda>r. map (\<lambda>(c, x). if c = col then v else x) (zip (columns d) r)) (rows d)\<rparr>
      else \<lparr>columns = columns d @ [col], rows = map (\<lambda>r. r @ [v]) (rows d)\<rparr>)"

text \<open>\<open>df.rename(columns={old: new})\<close>.\<close>

definition rename_column :: "string \<Rightarrow> string \<Rightarrow> 'n df \<Rightarrow> 'n df" where
  "rename_column old new d = d\<lparr>columns := map (\<lambda>c. if c = old then new else c) (columns d)\<rparr>"

text \<open>
  The renaming every parser and the combiner end with:
  \<open>if 'Population' in df.columns and 'Population *' not in df.columns\<close>.
\<close>

definition standardize_population :: "'n df \<Rightarrow> 'n df" where
  "standardize_population d =
     (if ''Population'' \<in> set (columns d) \<and> ''Population *'' \<notin> set (columns d)
      then rename_column ''Population'' ''Population *'' d else d)"

text \<open>\<open>df[cols]\<close>: the columns with the given labels, in the order of \<open>cols\<close>.\<close>

definition select_columns :: "string list \<Rightarrow> 'n df \<Rightarrow> 'n df" where
  "select_columns cols d =
     (let idx = concat (map (\<lambda>c. positions c (columns d)) cols)
      in \<lparr>columns = map (\<lambda>i. columns d ! i) idx,
          rows = map (\<lambda>r. map (\<lambda>i. if i < length r then r ! i else Null) idx) (rows d)\<rparr>)"

text \<open>\<open>df.drop(columns=cols)\<close>.\<close>

definition drop_columns :: "string list \<Rightarrow> 'n df \<Rightarrow> 'n df" where
  "drop_columns cols d =
     (let keep = filter (\<lambda>i. columns d ! i \<notin> set cols) [0..<length (columns d)]
      in \<lparr>columns = map (\<lambda>i. columns d ! i) keep,
          rows = map (\<lambda>r. map (\<lambda>i. if i < length r then r ! i else Null) keep) (rows d)\<rparr>)"

text \<open>
  The test of \<open>df['Prison Name'].str.contains('total', case=False, na=False)\<close> on one
  cell; a missing cell gives False.
\<close>

definition contains_total :: "'n cell \<Rightarrow> bool" where
  "contains_total c = (case c of Str s \<Rightarrow> contains ''total'' (lower s) | _ \<Rightarrow> False)"

text \<open>
  The last step of the RTF, PDF, DOCX and DOC parsers:
  \<open>df = df[df['Prison Name'].notna()]\<close>, then
  \<open>df = df[~df['Prison Name'].str.contains('total', case=False, na=False)]\<close>,
  both under \<open>if 'Prison Name' in df.columns\<close>.
\<close>

definition keep_row :: "string list \<Rightarrow> 'n cell list \<Rightarrow> bool" where
  "keep_row cols r =
     (cell_at cols ''Prison Name'' r \<noteq> Null \<and> \<not> contains_total (cell_at cols ''Prison Name'' r))"

definition drop_total_rows :: "'n df \<Rightarrow> 'n df" where
  "drop_total_rows d =
     (if ''Prison Name'' \<in> set (columns d)
      then d\<lparr>rows := filter (keep_row (columns d)) (rows d)\<rparr>
      else d)"

text \<open>
  The cleaning before the coercion, \<open>.str.replace('%', '').str.replace(',', '')\<close>, and
  the coercion of one cell of a metric column. A missing cell stays missing.
\<close>

definition clean_metric :: "string \<Rightarrow> string" where
  "clean_metric s = filter (\<lambda>c. c \<noteq> CHR '','') (filter (\<lambda>c. c \<noteq> CHR ''%'') s)"

definition coerce_metric :: "(string \<Rightarrow> 'n option) \<Rightarrow> string option \<Rightarrow> 'n cell" where
  "coerce_metric coerce c =
     (case c of
        None \<Rightarrow> Null
      | Some s \<Rightarrow> (case coerce (clean_metric s) of None \<Rightarrow> Null | Some n \<Rightarrow> Num n))"

definition name_cell :: "string option \<Rightarrow> 'n cell" where
  "name_cell c = (case c of None \<Rightarrow> Null | Some s \<Rightarrow> Str s)"

text \<open>
  The loop \<open>for col in df.columns: if col != "Prison Name": ...\<close> on one row: every
  column but the name column is cleaned and coerced.
\<close>

definition convert_row ::
  "(string \<Rightarrow> 'n option) \<Rightarrow> string list \<Rightarrow> string option list \<Rightarrow> 'n cell list" where
  "convert_row coerce cols r =
     map (\<lambda>(col, c). if col \<noteq> ''Prison Name'' then coerce_metric coerce c else name_cell c)
         (zip cols r)"

text \<open>\<open>if report_date: df['Report_Date'] = report_date\<close>.\<close>

definition set_report_date :: "date option \<Rightarrow> 'n df \<Rightarrow> 'n df" where
  "set_report_date report_date d =
     (case report_date of None \<Rightarrow> d | Some dt \<Rightarrow> set_column ''Report_Date'' (Day dt) d)"

section \<open>Tabular Parser for recovered lines: RTF, DOCX and DOC\<close>

text \<open>
  The exceptions the modelled code can raise. Every parser runs inside
  \<open>try ... except Exception\<close> and returns an empty data frame when one is raised.
\<close>

datatype error = ValueError | AttributeError | TypeError | KeyError

text \<open>\<open>xs.index(x)\<close> raises ValueError when \<open>x\<close> is not in the list.\<close>

fun index_of :: "'a \<Rightarrow> 'a list \<Rightarrow> error + nat" where
  "index_of x [] = Inl ValueError"
| "index_of x (y # ys) =
     (if x = y then Inr 0
      else (case index_of x ys of Inl e \<Rightarrow> Inl e | Inr i \<Rightarrow> Inr (Suc i)))"

text \<open>
  \<open>re.split(r'\s{2,}', s)\<close>: the text is cut at every maximal run of two or more
  whitespace characters. \<open>cur\<close> is the piece being read and \<open>ws\<close> the whitespace run
  just read, both reversed.
\<close>

fun re_split_acc :: "string \<Rightarrow> string \<Rightarrow> string \<Rightarrow> string list" where
  "re_split_acc cur ws [] = (if length ws \<ge> 2 then [rev cur, []] else [rev (ws @ cur)])"
| "re_split_acc cur ws (c # cs) =
     (if is_space c then re_split_acc cur (c # ws) cs
      else if length ws \<ge> 2 then rev cur # re_split_acc [c] [] cs
      else re_split_acc (c # ws @ cur) [] cs)"

definition re_split_ws2 :: "string \<Rightarrow> string list" where
  "re_split_ws2 s = re_split_acc [] [] s"

definition standard_columns :: "string list" where
  "standard_columns =
     [''Prison Name'', ''Baseline CNA'', ''In Use CNA'', ''Operational Capacity'',
      ''Population *'', ''% Pop to In Use CNA'', ''% Accommodation Available'']"

text \<open>The names used when no header was found, and by the PDF parser.\<close>

definition default_columns :: "string list" where
  "default_columns =
     [''Prison Name'', ''Baseline CNA'', ''In Use CNA'', ''Operational Capacity'',
      ''Population'', ''% Pop to In Use CNA'', ''% Accommodation Available'']"

text \<open>\<open>"Prison Name" in line and ("Baseline" in line or "CNA" in line)\<close>.\<close>

definition is_header_line :: "string \<Rightarrow> bool" where
  "is_header_line line =
     (contains ''Prison Name'' line \<and> (contains ''Baseline'' line \<or> contains ''CNA'' line))"

text \<open>
  The header line with its continuation: \<open>nxt\<close> is \<open>lines[i + 1]\<close> when
  \<open>i + 1 < len(lines)\<close>. \<open>re.match(r'^[A-Za-z]', s)\<close> is \<open>re_match (Cls is_letter) s\<close>.
\<close>

definition header_with_continuation :: "string \<Rightarrow> string option \<Rightarrow> string" where
  "header_with_continuation line nxt =
     (case nxt of
        None \<Rightarrow> line
      | Some l \<Rightarrow>
          (let next_line = strip l
           in if next_line \<noteq> [] \<and> contains ''Capacity'' next_line
                 \<and> \<not> re_match (Cls is_letter) next_line
              then line @ '' '' @ next_line else line))"

text \<open>\<open>column_names = [part.strip() for part in header_parts if part.strip()]\<close>.\<close>

definition header_tokens :: "string \<Rightarrow> string list" where
  "header_tokens header_line =
     map strip (filter (\<lambda>part. strip part \<noteq> []) (re_split_ws2 header_line))"

text \<open>The repair of a split \<open>Operational Capacity\<close> column.\<close>

definition merge_operational :: "string list \<Rightarrow> error + string list" where
  "merge_operational column_names =
     (if ''Operational'' \<in> set column_names \<and> ''Capacity'' \<in> set column_names then
        (case index_of ''Operational'' column_names of
           Inl e \<Rightarrow> Inl e
         | Inr op_idx \<Rightarrow>
             (case index_of ''Capacity'' column_names of
                Inl e \<Rightarrow> Inl e
              | Inr cap_idx \<Rightarrow>
                  if cap_idx = op_idx + 1
                  then Inr (take cap_idx (column_names[op_idx := ''Operational Capacity''])
                            @ drop (Suc cap_idx) column_names)
                  else Inr column_names))
      else Inr column_names)"

text \<open>The column names a header line gives, with the substitution of the standard schema.\<close>

definition header_columns :: "string \<Rightarrow> string option \<Rightarrow> error + string list" where
  "header_columns line nxt =
     (case merge_operational (header_tokens (header_with_continuation line nxt)) of
        Inl e \<Rightarrow> Inl e
      | Inr column_names \<Rightarrow>
          if length column_names \<noteq> length standard_columns then Inr standard_columns
          else Inr column_names)"

definition footer_terms :: "string list" where
  "footer_terms = [''Sub total'', ''NOMS Operated'', ''Definitions of Accommodation'', ''Total'']"

definition has_footer :: "string \<Rightarrow> bool" where
  "has_footer line = list_ex (\<lambda>marker. contains marker line) footer_terms"

text \<open>
  \<open>re.match(r'^\d', part) or part.startswith('%') or part.endswith('%')\<close>, and the
  index of the first such part.
\<close>

definition is_numeric_part :: "string \<Rightarrow> bool" where
  "is_numeric_part part =
     (re_match (Cls is_digit) part \<or> startswith part ''%'' \<or> endswith part ''%'')"

fun numeric_start :: "string list \<Rightarrow> nat option" where
  "numeric_start [] = None"
| "numeric_start (part # parts) =
     (if is_numeric_part part then Some 0
      else (case numeric_start parts of None \<Rightarrow> None | Some j \<Rightarrow> Some (Suc j)))"

text \<open>The row a data line gives: the name, then the tokens from the first numeric one on.\<close>

definition row_of_line :: "string \<Rightarrow> string list option" where
  "row_of_line line =
     (let parts = split_ws line in
      case numeric_start parts of
        None \<Rightarrow> None
      | Some numeric_start_idx \<Rightarrow>
          (let prison_name = join '' '' (take numeric_start_idx parts);
               numeric_data = drop numeric_start_idx parts
           in if length numeric_data > 0 then Some (prison_name # numeric_data) else None))"

text \<open>The variables of the loop over the lines.\<close>

record scan_state =
  column_names :: "string list option"
  data :: "string list list"
  in_data_section :: bool
  prison_data_started :: bool
  data_section_ended :: bool

definition scan_init :: scan_state where
  "scan_init = \<lparr>column_names = None, data = [], in_data_section = False,
                prison_data_started = False, data_section_ended = False\<rparr>"

text \<open>One iteration of \<open>for i, line in enumerate(lines)\<close>.\<close>

definition scan_step :: "scan_state \<Rightarrow> string \<Rightarrow> string option \<Rightarrow> error + scan_state" where
  "scan_step st raw nxt =
     (let line = strip raw in
      if line = [] then Inr st
      else if is_header_line line then
        (case header_columns line nxt of
           Inl e \<Rightarrow> Inl e
         | Inr cols \<Rightarrow> Inr (st\<lparr>column_names := Some cols, in_data_section := True\<rparr>))
      else if in_data_section st then
        (if has_footer line
         then Inr (st\<lparr>prison_data_started := False, data_section_ended := True\<rparr>)
         else if contains ''Report Date:'' line \<or> startswith line ''Page'' then Inr st
         else if \<not> data_section_ended st \<and> re_match (Cls is_letter) line
                 \<and> \<not> startswith line ''Report'' \<and> \<not> contains ''Prison Name'' line
         then (case row_of_line line of
                 Some row \<Rightarrow> Inr (st\<lparr>prison_data_started := True, data := data st @ [row]\<rparr>)
               | None \<Rightarrow> Inr (st\<lparr>prison_data_started := True\<rparr>))
         else Inr st)
      else Inr st)"

fun scan_lines :: "scan_state \<Rightarrow> string list \<Rightarrow> error + scan_state" where
  "scan_lines st [] = Inr st"
| "scan_lines st (l # ls) =
     (case scan_step st l (case ls of [] \<Rightarrow> None | n # _ \<Rightarrow> Some n) of
        Inl e \<Rightarrow> Inl e
      | Inr st' \<Rightarrow> scan_lines st' ls)"

text \<open>
  \<open>pd.DataFrame(data)\<close>: as many columns as the longest row has, shorter rows filled
  with None.
\<close>

definition width :: "'a list list \<Rightarrow> nat" where
  "width rs = fold max (map length rs) 0"

definition data_frame :: "string list list \<Rightarrow> string option list list" where
  "data_frame rs = map (\<lambda>r. map Some r @ replicate (width rs - length r) None) rs"

text \<open>
  The handling of a column count mismatch: with too many columns the first \<open>n\<close> are
  kept (\<open>df.iloc[:, :n]\<close>), with too few, columns of None are added.
\<close>

definition adjust_columns :: "nat \<Rightarrow> 'a option list list \<Rightarrow> 'a option list list" where
  "adjust_columns n rs =
     (if width rs \<noteq> n then
        (if width rs > n then map (take n) rs
         else map (\<lambda>r. r @ replicate (n - width rs) None) rs)
      else rs)"

text \<open>
  From the rows to the table, for a non-empty \<open>data\<close>. Column names that repeat a label
  make the source raise AttributeError (\<open>df[col]\<close> is then a frame, with neither
  \<open>dtype\<close> nor \<open>str\<close>).
\<close>

definition build_table ::
  "(string \<Rightarrow> 'n option) \<Rightarrow> date option \<Rightarrow> string list \<Rightarrow> string list list \<Rightarrow> error + 'n df" where
  "build_table coerce report_date cols rs =
     (if \<not> distinct cols then Inl AttributeError
      else
        let fitted = adjust_columns (length cols) (data_frame rs);
            d0 = \<lparr>columns = cols, rows = map (convert_row coerce cols) fitted\<rparr>
        in Inr (drop_total_rows (standardize_population (set_report_date report_date d0))))"

text \<open>
  The parser on the recovered text; \<open>report_date\<close> is the result of
  \<open>extract_report_date_from_file\<close>. \<open>extract_data_from_docx\<close> is the same function,
  but returns the empty frame on an empty text first, as this one does already.
\<close>

definition columns_or_default :: "string list option \<Rightarrow> string list" where
  "columns_or_default cn = (case cn of None \<Rightarrow> default_columns
                            | Some cs \<Rightarrow> if cs = [] then default_columns else cs)"

definition extract_data_from_rtf ::
  "(string \<Rightarrow> 'n option) \<Rightarrow> date option \<Rightarrow> string \<Rightarrow> 'n df" where
  "extract_data_from_rtf coerce report_date text =
     (case scan_lines scan_init (split_on (CHR 0x0A) text) of
        Inl e \<Rightarrow> empty_df
      | Inr st \<Rightarrow>
          if data st = [] then empty_df
          else (case build_table coerce report_date (columns_or_default (column_names st)) (data st) of
                  Inl e \<Rightarrow> empty_df
                | Inr d \<Rightarrow> d))"

section \<open>Tabular Parser for page documents: PDF\<close>

text \<open>
  \<open>re_full r s\<close> holds when \<open>r\<close> matches the whole of \<open>s\<close>: the patterns
  \<open>^Page\s+\d+$\<close> and \<open>^\d+$\<close> are applied to stripped lines, which end with no
  line feed.
\<close>

fun re_full :: "rx \<Rightarrow> string \<Rightarrow> bool" where
  "re_full r [] = nullable r"
| "re_full r (c # cs) = re_full (deriv c r) cs"

definition lit :: "string \<Rightarrow> rx" where
  "lit s = foldr (\<lambda>c r. Seq (Cls (\<lambda>x. x = c)) r) s Eps"

definition page_number_line :: "string \<Rightarrow> bool" where
  "page_number_line line =
     (re_full (Seq (lit ''Page'') (Seq (Plus (Cls is_space)) (Plus (Cls is_digit)))) line
      \<or> re_full (Plus (Cls is_digit)) line)"

text \<open>
  \<open>str.isdigit\<close> on code points 0..255: the decimal digits and the superscripts
  0xB2, 0xB3 and 0xB9; the empty string is not a digit string.
\<close>

definition py_isdigit :: "string \<Rightarrow> bool" where
  "py_isdigit s =
     (s \<noteq> [] \<and> list_all (\<lambda>c. is_digit c \<or> ord c = 178 \<or> ord c = 179 \<or> ord c = 185) s)"

text \<open>
  \<open>("Prison Name" in line and "Baseline" in line and "CNA" in line) or
  ("Prison Name" in line and "Population" in line)\<close>.
\<close>

definition pdf_header_line :: "string \<Rightarrow> bool" where
  "pdf_header_line line =
     ((contains ''Prison Name'' line \<and> contains ''Baseline'' line \<and> contains ''CNA'' line)
      \<or> (contains ''Prison Name'' line \<and> contains ''Population'' line))"

text \<open>
  \<open>"Sub total" in line or "NOMS Operated" in line or "Definitions of Accommodation" in line\<close>.
\<close>

definition pdf_footer_line :: "string \<Rightarrow> bool" where
  "pdf_footer_line line =
     (contains ''Sub total'' line \<or> contains ''NOMS Operated'' line
      \<or> contains ''Definitions of Accommodation'' line)"

text \<open>\<open>re.match(r'\d', part) or part.endswith('%')\<close>.\<close>

definition pdf_numeric_part :: "string \<Rightarrow> bool" where
  "pdf_numeric_part part = (re_match (Cls is_digit) part \<or> endswith part ''%'')"

fun pdf_numeric_start :: "string list \<Rightarrow> nat option" where
  "pdf_numeric_start [] = None"
| "pdf_numeric_start (part # parts) =
     (if pdf_numeric_part part then Some 0
      else (case pdf_numeric_start parts of None \<Rightarrow> None | Some j \<Rightarrow> Some (Suc j)))"

text \<open>
  The reconciliation of an assembled row with the seven column names: a row of fewer
  than six fields is not added; excess leading fields are merged into the name; a row
  of six fields gets one None.
\<close>

definition fit_pdf_row :: "string list \<Rightarrow> string option list option" where
  "fit_pdf_row row_data =
     (if row_data \<noteq> [] \<and> length row_data \<ge> length default_columns - 1 then
        (let merged =
               (if length row_data > length default_columns then
                  (let extra = length row_data - length default_columns
                   in join '' '' (take (extra + 1) row_data) # drop (extra + 1) row_data)
                else row_data);
             cells = map Some merged
         in Some (if length cells < length default_columns
                  then cells @ replicate (length default_columns - length cells) None
                  else if length cells > length default_columns
                  then take (length default_columns) cells
                  else cells))
      else None)"

text \<open>The variables of the loop over the lines of one page.\<close>

record pdf_state =
  data_rows :: "string option list list"
  pdf_in_data_section :: bool
  current_prison :: "string option"

definition pdf_init :: pdf_state where
  "pdf_init = \<lparr>data_rows = [], pdf_in_data_section = False, current_prison = None\<rparr>"

definition pdf_add_row :: "pdf_state \<Rightarrow> string list \<Rightarrow> pdf_state" where
  "pdf_add_row st row_data =
     (case fit_pdf_row row_data of
        None \<Rightarrow> st
      | Some r \<Rightarrow> st\<lparr>data_rows := data_rows st @ [r]\<rparr>)"

text \<open>One iteration of \<open>for line in lines\<close>.\<close>

definition pdf_step :: "pdf_state \<Rightarrow> string \<Rightarrow> pdf_state" where
  "pdf_step st raw =
     (let line = strip raw in
      if line = [] then st
      else if page_number_line line then st
      else if pdf_header_line line then st\<lparr>pdf_in_data_section := True\<rparr>
      else if contains ''Report Date:'' line then st
      else if pdf_footer_line line then st\<lparr>pdf_in_data_section := False\<rparr>
      else if pdf_in_data_section st then
        (let parts = split_ws line in
         if length parts \<ge> 2 \<and> \<not> py_isdigit (hd parts) then
           (if \<not> list_ex pdf_numeric_part parts then st\<lparr>current_prison := Some line\<rparr>
            else if current_prison st \<noteq> None \<and> list_all pdf_numeric_part parts
            then pdf_add_row (st\<lparr>current_prison := None\<rparr>) (the (current_prison st) # parts)
            else (case pdf_numeric_start parts of
                    Some numeric_start_idx \<Rightarrow>
                      pdf_add_row st (join '' '' (take numeric_start_idx parts)
                                      # drop numeric_start_idx parts)
                  | None \<Rightarrow> st\<lparr>current_prison := Some line\<rparr>))
         else st)
      else st)"

definition pdf_page_rows :: "string \<Rightarrow> string option list list" where
  "pdf_page_rows text = data_rows (fold (\<lambda>l st. pdf_step st l) (split_on (CHR 0x0A) text) pdf_init)"

text \<open>
  The pages of the document are their extracted texts (the empty string for a page
  without text). The last page is skipped when there is more than one.
\<close>

definition pdf_all_data :: "string list \<Rightarrow> string option list list" where
  "pdf_all_data pages =
     concat (map (\<lambda>text. if text = [] then [] else pdf_page_rows text)
                 (if length pages > 1 then butlast pages else pages))"

text \<open>
  From the rows to the table. \<open>pd.DataFrame(all_data, columns=column_names)\<close> raises
  ValueError when the rows are not seven wide, which the rows of the relaxed parser can be.
\<close>

definition pdf_table ::
  "(string \<Rightarrow> 'n option) \<Rightarrow> date option \<Rightarrow> string option list list \<Rightarrow> error + 'n df" where
  "pdf_table coerce report_date all_data =
     (if all_data = [] then Inr empty_df
      else if width all_data \<noteq> length default_columns then Inl ValueError
      else
        let padded = map (\<lambda>r. r @ replicate (length default_columns - length r) None) all_data;
            d0 = \<lparr>columns = default_columns, rows = map (convert_row coerce default_columns) padded\<rparr>
        in Inr (drop_total_rows (standardize_population (set_report_date report_date d0))))"

text \<open>
  \<open>relaxed\<close> is the result of \<open>extract_data_from_pdf_relaxed\<close>, which reads the tables
  that the PDF library finds; it is used when the lines give no row.
\<close>

definition extract_data_from_pdf ::
  "(string \<Rightarrow> 'n option) \<Rightarrow> date option \<Rightarrow> string option list list \<Rightarrow> string list
   \<Rightarrow> error + 'n df" where
  "extract_data_from_pdf coerce report_date relaxed pages =
     (let all_data = pdf_all_data pages
      in pdf_table coerce report_date (if all_data = [] then relaxed else all_data))"

section \<open>Tabular Parser for spreadsheets: ODS\<close>

text \<open>
  The sheet is read with \<open>header=None, dtype=str\<close>: a grid of rows whose cells are
  strings or missing. The header row is the first row whose first cell, stripped, is
  \<open>Prison Name\<close>; a row without a first cell makes \<open>row[0]\<close> raise.
\<close>

fun find_header_row ::
  "string option list list \<Rightarrow> error + (string option list \<times> string option list list) option" where
  "find_header_row [] = Inr None"
| "find_header_row (row # rest) =
     (case row of
        [] \<Rightarrow> Inl KeyError
      | c # _ \<Rightarrow>
          (case c of
             Some s \<Rightarrow> if strip s = ''Prison Name'' then Inr (Some (row, rest))
                       else find_header_row rest
           | None \<Rightarrow> find_header_row rest))"

definition numeric_columns :: "string list" where
  "numeric_columns = [''Baseline CNA'', ''In Use CNA'', ''Operational Capacity'', ''Population *'']"

definition ods_columns :: "string list" where
  "ods_columns = [''Prison Name'', ''Baseline CNA'', ''In Use CNA'', ''Operational Capacity'',
                  ''Population *'', ''Report_Date'']"

text \<open>The label of a column; a missing header cell is the label \<open>nan\<close>.\<close>

definition label_of :: "string option \<Rightarrow> string" where
  "label_of c = (case c of None \<Rightarrow> ''nan'' | Some s \<Rightarrow> s)"

text \<open>
  \<open>.astype(str).str.replace(',', '').str.replace(' ', '')\<close> and the coercion of one
  cell of a numeric column. A missing cell stays missing.
\<close>

definition clean_ods :: "string \<Rightarrow> string" where
  "clean_ods s = filter (\<lambda>c. c \<noteq> CHR '' '') (filter (\<lambda>c. c \<noteq> CHR '','') s)"

definition coerce_ods :: "(string \<Rightarrow> 'n option) \<Rightarrow> string option \<Rightarrow> 'n cell" where
  "coerce_ods coerce c =
     (case c of
        None \<Rightarrow> Null
      | Some s \<Rightarrow> (case coerce (clean_ods s) of None \<Rightarrow> Null | Some n \<Rightarrow> Num n))"

text \<open>\<open>df['Prison Name'].astype(str)\<close>: a missing name becomes the string \<open>nan\<close>.\<close>

definition ods_convert_row ::
  "(string \<Rightarrow> 'n option) \<Rightarrow> string list \<Rightarrow> string option list \<Rightarrow> 'n cell list" where
  "ods_convert_row coerce cols r =
     map (\<lambda>(col, c). if col = ''Prison Name'' then Str (label_of c)
                      else if col \<in> set numeric_columns then coerce_ods coerce c
                      else name_cell c)
         (zip cols r)"

text \<open>
  The rows before the first one whose name contains \<open>total\<close>, any case:
  \<open>df.iloc[:total_row_idx]\<close>.
\<close>

definition cut_at_total :: "string list \<Rightarrow> 'n cell list list \<Rightarrow> 'n cell list list" where
  "cut_at_total cols rs = takeWhile (\<lambda>r. \<not> contains_total (cell_at cols ''Prison Name'' r)) rs"

text \<open>\<open>df.dropna(how='all', subset=cols)\<close>.\<close>

definition dropna_all :: "string list \<Rightarrow> 'n df \<Rightarrow> 'n df" where
  "dropna_all cols d =
     d\<lparr>rows := filter (\<lambda>r. \<not> list_all (\<lambda>col. cell_at (columns d) col r = Null) cols) (rows d)\<rparr>"

text \<open>\<open>df.dropna(subset=[col])\<close>.\<close>

definition dropna_col :: "string \<Rightarrow> 'n df \<Rightarrow> 'n df" where
  "dropna_col col d = d\<lparr>rows := filter (\<lambda>r. cell_at (columns d) col r \<noteq> Null) (rows d)\<rparr>"

text \<open>
  \<open>report_date\<close> is the date that the date steps of the function find for the file
  (\<open>extract_report_date_from_file\<close>, then the patterns of the function itself), None
  when they find none. A header that repeats \<open>Prison Name\<close> or a numeric column makes
  the source raise; the function then returns the empty frame.
\<close>

definition extract_data_from_ods ::
  "(string \<Rightarrow> 'n option) \<Rightarrow> date option \<Rightarrow> string option list list \<Rightarrow> 'n df" where
  "extract_data_from_ods coerce report_date grid =
     (case find_header_row grid of
        Inl e \<Rightarrow> empty_df
      | Inr None \<Rightarrow> empty_df
      | Inr (Some (headers, body)) \<Rightarrow>
          (let cols = map label_of headers in
           if list_ex (\<lambda>col. length (positions col cols) > 1) (''Prison Name'' # numeric_columns)
           then empty_df
           else
             let converted = map (ods_convert_row coerce cols) body;
                 kept = (if ''Prison Name'' \<in> set cols then cut_at_total cols converted
                         else converted);
                 d1 = set_report_date report_date \<lparr>columns = cols, rows = kept\<rparr>
             in if ''Report_Date'' \<notin> set (columns d1) then empty_df
                else
                  let available_columns = filter (\<lambda>col. col \<in> set (columns d1)) ods_columns;
                      d2 = select_columns available_columns d1;
                      d3 = (if ''Prison Name'' \<in> set (columns d2)
                            then dropna_col ''Prison Name'' d2 else d2);
                      available_numeric_columns =
                        filter (\<lambda>col. col \<in> set (columns d3)) numeric_columns;
                      d4 = (if available_numeric_columns \<noteq> []
                            then dropna_all available_numeric_columns d3 else d3)
                  in if df_empty d4 then empty_df else d4))"

section \<open>Date Resolver: \<open>extract_report_date_from_file\<close>\<close>

definition months :: "(string \<times> nat) list" where
  "months =
     [(''january'', 1), (''february'', 2), (''march'', 3), (''april'', 4), (''may'', 5),
      (''june'', 6), (''july'', 7), (''august'', 8), (''september'', 9), (''october'', 10),
      (''november'', 11), (''december'', 12),
      (''jan'', 1), (''feb'', 2), (''mar'', 3), (''apr'', 4), (''jun'', 6), (''jul'', 7),
      (''aug'', 8), (''sep'', 9), (''sept'', 9), (''oct'', 10), (''nov'', 11), (''dec'', 12)]"

text \<open>\<open>os.path.basename\<close> on a path with \<open>/\<close> as separator.\<close>

definition basename :: "string \<Rightarrow> string" where
  "basename p = rev (takeWhile (\<lambda>c. c \<noteq> CHR ''/'') (rev p))"

text \<open>\<open>int(s)\<close> on a string of decimal digits.\<close>

definition digit_val :: "char \<Rightarrow> nat" where
  "digit_val c = ord c - 48"

definition int_of_digits :: "string \<Rightarrow> nat" where
  "int_of_digits s = fold (\<lambda>c n. 10 * n + digit_val c) s 0"

text \<open>\<open>re.search(r'20\d{2}', filename)\<close>: the first such four characters.\<close>

fun find_year :: "string \<Rightarrow> string option" where
  "find_year [] = None"
| "find_year (c # cs) =
     (if startswith (c # cs) ''20'' \<and> length cs \<ge> 3 \<and> is_digit (cs ! 1) \<and> is_digit (cs ! 2)
      then Some (take 4 (c # cs))
      else find_year cs)"

text \<open>\<open>28 if month_num == 2 else 30 if month_num in [4, 6, 9, 11] else 31\<close>.\<close>

definition last_day :: "nat \<Rightarrow> nat" where
  "last_day month_num =
     (if month_num = 2 then 28 else if month_num \<in> set [4, 6, 9, 11] then 30 else 31)"

text \<open>
  The three searches of the first loop for one month name and one separator:
  \<open>month{sep}?year\<close>, \<open>year{sep}?month\<close>, and the month alone between separators,
  at the start or at the end of the file name.
\<close>

definition month_year_hit :: "string \<Rightarrow> string \<Rightarrow> string \<Rightarrow> string \<Rightarrow> bool" where
  "month_year_hit filename year month_name separator =
     (contains (month_name @ separator @ year) filename \<or> contains (month_name @ year) filename)"

definition year_month_hit :: "string \<Rightarrow> string \<Rightarrow> string \<Rightarrow> string \<Rightarrow> bool" where
  "year_month_hit filename year month_name separator =
     (contains (year @ separator @ month_name) filename \<or> contains (year @ month_name) filename)"

definition month_alone_hit :: "string \<Rightarrow> string \<Rightarrow> string \<Rightarrow> bool" where
  "month_alone_hit filename month_name separator =
     (contains (separator @ month_name @ separator) filename
      \<or> startswith filename (month_name @ separator)
      \<or> endswith filename (separator @ month_name))"

fun separator_loop :: "string \<Rightarrow> string \<Rightarrow> string \<Rightarrow> nat \<Rightarrow> string list \<Rightarrow> date option" where
  "separator_loop filename year month_name month_num [] = None"
| "separator_loop filename year month_name month_num (separator # seps) =
     (if month_year_hit filename year month_name separator
      then Some (int_of_digits year, month_num, last_day month_num)
      else if year_month_hit filename year month_name separator
      then Some (int_of_digits year, month_num, last_day month_num)
      else if month_alone_hit filename month_name separator
      then Some (int_of_digits year, month_num, last_day month_num)
      else separator_loop filename year month_name month_num seps)"

fun month_loop :: "string \<Rightarrow> string \<Rightarrow> (string \<times> nat) list \<Rightarrow> date option" where
  "month_loop filename year [] = None"
| "month_loop filename year ((month_name, month_num) # ms) =
     (case separator_loop filename year month_name month_num [''-'', ''_''] of
        Some d \<Rightarrow> Some d
      | None \<Rightarrow> month_loop filename year ms)"

text \<open>
  The loop of the two later stages: the first month name that occurs anywhere in the
  file name, with the first year, when there is a year.
\<close>

fun month_anywhere :: "string \<Rightarrow> (string \<times> nat) list \<Rightarrow> date option" where
  "month_anywhere filename [] = None"
| "month_anywhere filename ((month_name, month_num) # ms) =
     (if contains month_name filename then
        (case find_year filename of
           Some year \<Rightarrow> Some (int_of_digits year, month_num, last_day month_num)
         | None \<Rightarrow> month_anywhere filename ms)
      else month_anywhere filename ms)"

text \<open>The part of the function after the content branches; \<open>filename\<close> is in lower case.\<close>

definition date_from_filename :: "string \<Rightarrow> date option" where
  "date_from_filename filename =
     (case (case find_year filename of
              Some year \<Rightarrow> month_loop filename year months
            | None \<Rightarrow> None) of
        Some d \<Rightarrow> Some d
      | None \<Rightarrow>
          (case (if contains ''monthly'' filename \<and> contains ''bulletin'' filename
                 then month_anywhere filename months else None) of
             Some d \<Rightarrow> Some d
           | None \<Rightarrow>
               (if contains ''prison-pop'' filename \<or> contains ''prison_pop'' filename
                then month_anywhere filename months else None)))"

text \<open>
  The content branches search \<open>Report Date:\s*(\d{2}/\d{2}/\d{4})\<close> in the recovered
  text and give the group to \<open>strptime(date_str, '%d/%m/%Y')\<close>, which raises ValueError
  on a date that does not exist; the function then goes on with the file name.
\<close>

definition date_shaped :: "string \<Rightarrow> bool" where
  "date_shaped s =
     (length s \<ge> 10 \<and> is_digit (s ! 0) \<and> is_digit (s ! 1) \<and> s ! 2 = CHR ''/''
      \<and> is_digit (s ! 3) \<and> is_digit (s ! 4) \<and> s ! 5 = CHR ''/''
      \<and> is_digit (s ! 6) \<and> is_digit (s ! 7) \<and> is_digit (s ! 8) \<and> is_digit (s ! 9))"

fun search_report_date :: "string \<Rightarrow> string option" where
  "search_report_date [] = None"
| "search_report_date (c # cs) =
     (if startswith (c # cs) ''Report Date:''
         \<and> date_shaped (dropWhile is_space (drop 12 (c # cs)))
      then Some (take 10 (dropWhile is_space (drop 12 (c # cs))))
      else search_report_date cs)"

definition is_leap :: "nat \<Rightarrow> bool" where
  "is_leap y = (y mod 4 = 0 \<and> (y mod 100 \<noteq> 0 \<or> y mod 400 = 0))"

definition days_in_month :: "nat \<Rightarrow> nat \<Rightarrow> nat" where
  "days_in_month y m =
     (if m = 2 then (if is_leap y then 29 else 28)
      else if m \<in> set [4, 6, 9, 11] then 30 else 31)"

definition strptime_dmy :: "string \<Rightarrow> error + date" where
  "strptime_dmy s =
     (let d = int_of_digits (take 2 s); m = int_of_digits (take 2 (drop 3 s));
          y = int_of_digits (take 4 (drop 6 s))
      in if 1 \<le> y \<and> 1 \<le> m \<and> m \<le> 12 \<and> 1 \<le> d \<and> d \<le> days_in_month y m
         then Inr (y, m, d) else Inl ValueError)"

definition content_report_date :: "string \<Rightarrow> date option" where
  "content_report_date text =
     (case search_report_date text of
        None \<Rightarrow> None
      | Some date_str \<Rightarrow> (case strptime_dmy date_str of Inl e \<Rightarrow> None | Inr d \<Rightarrow> Some d))"

text \<open>
  \<open>content\<close> is the text that the branch of the file's extension recovers (the RTF
  text, the first page of a PDF, the DOCX or DOC text); it is None for every other
  extension, for which the function reads no content.
\<close>

definition extract_report_date_from_file :: "string option \<Rightarrow> string \<Rightarrow> date option" where
  "extract_report_date_from_file content file_path =
     (let filename = lower (basename file_path) in
      case (case content of None \<Rightarrow> None | Some text \<Rightarrow> content_report_date text) of
        Some d \<Rightarrow> Some d
      | None \<Rightarrow> date_from_filename filename)"

section \<open>The file name stage of the Date Resolver in words\<close>





section \<open>The column count reconciliation in words\<close>

text \<open>
  A row cut to its first \<open>n\<close> cells, or filled with None up to \<open>n\<close> cells; and the
  table that has one such row for every assembled row, before the rows with a
  \<open>total\<close> name are dropped.
\<close>

definition fit_row :: "nat \<Rightarrow> string list \<Rightarrow> string option list" where
  "fit_row n r = take n (map Some r @ replicate (n - length r) None)"

definition reconciled_table ::
  "(string \<Rightarrow> 'n option) \<Rightarrow> date option \<Rightarrow> string list \<Rightarrow> string list list \<Rightarrow> 'n df" where
  "reconciled_table coerce report_date cols rs =
     drop_total_rows (standardize_population (set_report_date report_date
       \<lparr>columns = cols, rows = map (\<lambda>r. convert_row coerce cols (fit_row (length cols) r)) rs\<rparr>))"

section \<open>Legacy binary documents: DOC\<close>

text \<open>\<open>is_temp_file\<close>: the base name starts with the lock-file marker.\<close>

definition is_temp_file :: "string \<Rightarrow> bool" where
  "is_temp_file file_path = startswith (basename file_path) ''~$''"

text \<open>\<open>os.path.dirname\<close> and \<open>os.path.join\<close> of two parts, with \<open>/\<close> as separator.\<close>

definition dirname :: "string \<Rightarrow> string" where
  "dirname p =
     (let head = rev (dropWhile (\<lambda>c. c \<noteq> CHR ''/'') (rev p))
      in if list_all (\<lambda>c. c = CHR ''/'') head then head
         else rev (dropWhile (\<lambda>c. c = CHR ''/'') (rev head)))"

definition path_join :: "string \<Rightarrow> string \<Rightarrow> string" where
  "path_join a b =
     (if startswith b ''/'' then b
      else if a = [] \<or> endswith a ''/'' then a @ b
      else a @ ''/'' @ b)"

text \<open>
  The path that the Word automation branch of \<open>doc_to_text\<close> opens: for a temporary
  file, the file of the same name without the marker, when it exists.
  \<open>convert_doc_to_docx\<close> computes the path that it opens in the same way.
\<close>

definition word_open_path :: "(string \<Rightarrow> bool) \<Rightarrow> string \<Rightarrow> string" where
  "word_open_path path_exists file_path =
     (if startswith (basename file_path) ''~$'' then
        (let original_name = drop 2 (basename file_path);
             dir_path = dirname file_path;
             original_path = path_join dir_path original_name
         in if path_exists original_path then original_path else file_path)
      else file_path)"

text \<open>
  \<open>c.isalpha()\<close> on code points 0..255.
\<close>

definition py_isalpha :: "char \<Rightarrow> bool" where
  "py_isalpha c =
     (is_letter c \<or> ord c = 170 \<or> ord c = 181 \<or> ord c = 186
      \<or> (192 \<le> ord c \<and> ord c \<le> 214) \<or> (216 \<le> ord c \<and> ord c \<le> 246) \<or> 248 \<le> ord c)"

text \<open>
  \<open>validate_prison_data\<close>. \<open>to_float\<close> is Python's \<open>float\<close> on a string, None where
  it raises ValueError.
\<close>

definition validate_prison_data ::
  "(string \<Rightarrow> 'r::linordered_idom option) \<Rightarrow> string list list \<Rightarrow> bool" where
  "validate_prison_data to_float rs =
     (if rs = [] \<or> length rs < 2 then False
      else
        let row_lengths = map length rs in
        if min_list row_lengths < 2 \<or> fold max row_lengths 0 > 10 then False
        else if \<not> list_all (\<lambda>name. list_ex py_isalpha name) (map hd rs) then False
        else \<not> list_ex (\<lambda>row. list_ex (\<lambda>v.
                 (case to_float (filter (\<lambda>c. c \<noteq> CHR ''%'') (filter (\<lambda>c. c \<noteq> CHR '','') v)) of
                    None \<Rightarrow> False
                  | Some float_val \<Rightarrow> float_val < 0 \<or> float_val > 10000)) (tl row)) rs)"

text \<open>
  \<open>extract_data_from_doc\<close>. \<open>doc_to_text\<close> is the text recovery of the file at a path
  (the empty string when every stage fails) and \<open>windows\<close> is
  \<open>platform.system() == 'Windows'\<close>. In the conversion branch the source calls
  \<open>extract_data_from_docx\<close> with one argument of the two it requires; the TypeError is
  caught and the empty frame returned, as when the conversion fails.
\<close>

definition extract_data_from_doc ::
  "bool \<Rightarrow> (string \<Rightarrow> string) \<Rightarrow> (string \<Rightarrow> 'r::linordered_idom option) \<Rightarrow> (string \<Rightarrow> 'n option)
   \<Rightarrow> string \<Rightarrow> 'n df" where
  "extract_data_from_doc windows doc_to_text to_float coerce file_path =
     (if is_temp_file file_path then empty_df
      else
        let text = doc_to_text file_path;
            valid_text = (text \<noteq> [] \<and> is_valid_doc_text text)
        in if \<not> valid_text \<and> windows then empty_df
           else if text = [] then empty_df
           else if \<not> is_valid_doc_text text then empty_df
           else
             (case scan_lines scan_init (split_on (CHR 0x0A) text) of
                Inl e \<Rightarrow> empty_df
              | Inr st \<Rightarrow>
                  if data st = [] then empty_df
                  else if \<not> validate_prison_data to_float (data st) then empty_df
                  else (case build_table coerce
                               (extract_report_date_from_file (Some (doc_to_text file_path)) file_path)
                               (columns_or_default (column_names st)) (data st) of
                          Inl e \<Rightarrow> empty_df
                        | Inr d \<Rightarrow> d)))"

section \<open>Corpus Combiner: \<open>combine_prison_data\<close>\<close>

text \<open>
  One file of the corpus: its path, what the parser of its extension does with it (it
  returns a frame, or the call raises inside the loop's \<open>try\<close>), the content that
  \<open>extract_report_date_from_file\<close> reads from it, and the date of its modification time.
\<close>

datatype 'n outcome = Raises | Returns "'n df"

record 'n source_file =
  file_path :: string
  extraction :: "'n outcome"
  content :: "string option"
  mtime_date :: date

text \<open>The step that makes sure of a \<open>Report_Date\<close> column.\<close>

definition ensure_report_date :: "'n source_file \<Rightarrow> 'n df \<Rightarrow> 'n df" where
  "ensure_report_date f d =
     (if ''Report_Date'' \<notin> set (columns d) then
        (case extract_report_date_from_file (content f) (file_path f) of
           Some report_date \<Rightarrow> set_column ''Report_Date'' (Day report_date) d
         | None \<Rightarrow> set_column ''Report_Date'' (Day (mtime_date f)) d)
      else d)"

text \<open>
  The test that skips a file:
  \<open>df is None or df.empty or 'Prison Name' not in df.columns\<close>.
\<close>

definition usable :: "'n df \<Rightarrow> bool" where
  "usable d = (\<not> df_empty d \<and> ''Prison Name'' \<in> set (columns d))"

text \<open>
  The loop over the files: \<open>processed\<close> is the set \<open>processed_files\<close>, and the result
  is the list \<open>dfs\<close>.
\<close>

fun collect :: "string list \<Rightarrow> 'n source_file list \<Rightarrow> 'n df list" where
  "collect processed [] = []"
| "collect processed (f # fs) =
     (if file_path f \<in> set processed then collect processed fs
      else (case extraction f of
              Raises \<Rightarrow> collect (file_path f # processed) fs
            | Returns d \<Rightarrow>
                if \<not> usable d then collect (file_path f # processed) fs
                else ensure_report_date f d # collect (file_path f # processed) fs))"

definition columns_to_remove :: "string list" where
  "columns_to_remove = [''% Pop to In Use CNA'', ''% Accommodation Available'']"

text \<open>
  \<open>all_columns\<close> is a Python set and the order in which the source lists it is not
  fixed; the model lists the labels in the order of their first appearance.
\<close>

definition all_columns :: "'n df list \<Rightarrow> string list" where
  "all_columns dfs = remdups (concat (map columns dfs))"

definition master_columns :: "'n df list \<Rightarrow> string list" where
  "master_columns dfs = filter (\<lambda>col. col \<notin> set columns_to_remove) (all_columns dfs)"

text \<open>\<open>for col in standard_columns: if col not in df.columns: df[col] = pd.NA\<close>.\<close>

definition add_missing :: "string list \<Rightarrow> 'n df \<Rightarrow> 'n df" where
  "add_missing cols d =
     fold (\<lambda>col d'. if col \<notin> set (columns d') then set_column col Null d' else d') cols d"

definition standardize :: "string list \<Rightarrow> 'n df \<Rightarrow> 'n df" where
  "standardize cols d = select_columns cols (add_missing cols (drop_columns columns_to_remove d))"

text \<open>\<open>pd.concat(standardized_dfs, ignore_index=True)\<close> of frames with the same columns.\<close>

definition concat_frames :: "string list \<Rightarrow> 'n df list \<Rightarrow> 'n df" where
  "concat_frames cols dfs = \<lparr>columns = cols, rows = concat (map rows dfs)\<rparr>"

text \<open>
  \<open>pd.to_numeric(column, errors='coerce')\<close> and
  \<open>pd.to_datetime(column, errors='coerce')\<close> on one cell; \<open>parse_date\<close> is the
  library's reading of a cell that is neither a date nor missing.
\<close>

definition to_numeric_cell :: "(string \<Rightarrow> 'n option) \<Rightarrow> 'n cell \<Rightarrow> 'n cell" where
  "to_numeric_cell coerce c =
     (case c of
        Num n \<Rightarrow> Num n
      | Str s \<Rightarrow> (case coerce s of None \<Rightarrow> Null | Some n \<Rightarrow> Num n)
      | _ \<Rightarrow> Null)"

definition to_datetime_cell :: "('n cell \<Rightarrow> date option) \<Rightarrow> 'n cell \<Rightarrow> 'n cell" where
  "to_datetime_cell parse_date c =
     (case c of
        Day d \<Rightarrow> Day d
      | Null \<Rightarrow> Null
      | _ \<Rightarrow> (case parse_date c of None \<Rightarrow> Null | Some d \<Rightarrow> Day d))"

definition map_column :: "string \<Rightarrow> ('n cell \<Rightarrow> 'n cell) \<Rightarrow> 'n df \<Rightarrow> 'n df" where
  "map_column col g d =
     d\<lparr>rows := map (\<lambda>r. map (\<lambda>(c, x). if c = col then g x else x) (zip (columns d) r)) (rows d)\<rparr>"

definition coerce_types ::
  "(string \<Rightarrow> 'n option) \<Rightarrow> ('n cell \<Rightarrow> date option) \<Rightarrow> 'n df \<Rightarrow> 'n df" where
  "coerce_types coerce parse_date d =
     map_column ''Report_Date'' (to_datetime_cell parse_date)
       (fold (\<lambda>col d'. map_column col (to_numeric_cell coerce) d') numeric_columns d)"

text \<open>
  The sort keys: dates in calendar order and names in the order of Python strings, a
  missing value after every present one (\<open>na_position='last'\<close>).
\<close>

definition date_key :: "'n cell \<Rightarrow> nat \<times> date" where
  "date_key c = (case c of Day d \<Rightarrow> (0, d) | _ \<Rightarrow> (1, (0, 0, 0)))"

definition name_key :: "'n cell \<Rightarrow> nat \<times> string" where
  "name_key c = (case c of Str s \<Rightarrow> (0, s) | _ \<Rightarrow> (1, []))"

definition row_key :: "string list \<Rightarrow> 'n cell list \<Rightarrow> (nat \<times> date) \<times> (nat \<times> string)" where
  "row_key cols r = (date_key (cell_at cols ''Report_Date'' r), name_key (cell_at cols ''Prison Name'' r))"

definition sort_values :: "'n df \<Rightarrow> 'n df" where
  "sort_values d =
     (if ''Report_Date'' \<in> set (columns d)
      then d\<lparr>rows := sort_key (row_key (columns d)) (rows d)\<rparr>
      else d\<lparr>rows := sort_key (\<lambda>r. name_key (cell_at (columns d) ''Prison Name'' r)) (rows d)\<rparr>)"

text \<open>\<open>df.drop_duplicates()\<close>: of equal rows the first is kept.\<close>

definition drop_duplicates :: "'n df \<Rightarrow> 'n df" where
  "drop_duplicates d = d\<lparr>rows := rev (remdups (rev (rows d)))\<rparr>"

text \<open>The part of the function after the loop, and the function.\<close>

definition combine_frames ::
  "(string \<Rightarrow> 'n option) \<Rightarrow> ('n cell \<Rightarrow> date option) \<Rightarrow> 'n df list \<Rightarrow> 'n df" where
  "combine_frames coerce parse_date dfs =
     (let cols = master_columns dfs;
          combined_df = concat_frames cols (map (standardize cols) dfs)
      in drop_duplicates (sort_values (coerce_types coerce parse_date
           (standardize_population combined_df))))"

definition combine_prison_data ::
  "(string \<Rightarrow> 'n option) \<Rightarrow> ('n cell \<Rightarrow> date option) \<Rightarrow> 'n source_file list \<Rightarrow> error + 'n df" where
  "combine_prison_data coerce parse_date files =
     (let dfs = collect [] files
      in if dfs = [] then Inl ValueError
         else Inr (combine_frames coerce parse_date dfs))"

section \<open>A coercion for the examples\<close>

text \<open>
  The examples below need one concrete coercion. On a string of decimal digits
  \<open>pandas.to_numeric\<close> and Python's \<open>float\<close> give its value; the examples use this
  function on such strings and on \<open>N/A\<close>, which no coercion accepts.
\<close>

definition decimal_number :: "string \<Rightarrow> int option" where
  "decimal_number s =
     (if s \<noteq> [] \<and> list_all is_digit s then Some (int (int_of_digits s)) else None)"

text \<open>
  A recovered text with a header and two data rows, and a text recovery that gives it
  for the file \<open>report.doc\<close> and for its lock file, next to which only \<open>report.doc\<close>
  exists.
\<close>

definition example_text :: string where
  "example_text =
     ''Prison Name  Baseline CNA  In Use CNA  Operational Capacity  Population'' @ [CHR 0x0A]
     @ ''Altcourse 794 794 1133 1100'' @ [CHR 0x0A]
     @ ''Ashfield 400 400 416 410''"

definition example_doc_to_text :: "string \<Rightarrow> string" where
  "example_doc_to_text p =
     (if p = ''/data/report.doc'' \<or> p = ''/data/~$report.doc'' then example_text else [])"

definition example_exists :: "string \<Rightarrow> bool" where
  "example_exists p = (p = ''/data/report.doc'')"


text \<open>
  A recovered text whose second data row has metric tokens that no coercion accepts and
  whose third data row has a name with \<open>total\<close> in lower case, and a page with such a
  second row.
\<close>

definition example_failed_text :: string where
  "example_failed_text =
     ''Prison Name  Baseline CNA  In Use CNA  Operational Capacity  Population'' @ [CHR 0x0A]
     @ ''Altcourse 794 794 1133 1100'' @ [CHR 0x0A]
     @ ''Ashfield 4x N/A'' @ [CHR 0x0A]
     @ ''Overall total 1194 1198''"

definition example_failed_page :: string where
  "example_failed_page =
     ''Prison Name Baseline CNA'' @ [CHR 0x0A]
     @ ''Altcourse 794 794 1133 1100 97% 3%'' @ [CHR 0x0A]
     @ ''Ashfield 4x N/A N/A N/A N/A N/A''"

text \<open>
  A sheet with the header row and two rows; the numeric cells of the second row are
  missing or hold a dash.
\<close>

definition example_grid :: "string option list list" where
  "example_grid =
     [[Some ''Prison Name'', Some ''Baseline CNA'', Some ''In Use CNA'',
       Some ''Operational Capacity'', Some ''Population *''],
      [Some ''Altcourse'', Some ''794'', Some ''794'', Some ''1133'', Some ''1100''],
      [Some ''Ashfield'', Some ''-'', None, Some ''-'', None]]"

section \<open>Properties of the Text Validity Oracle\<close>

text \<open>
  Claim C4. \<open>is_valid_doc_text\<close> accepts a text exactly when the text has at least
  100 characters, at most a fifth of its characters are non-printable or non-ASCII, the
  two vendor markers occur at most three times together, no corruption signature
  occurs, and a domain keyword occurs or at least five lines have the shape of a name
  followed by two numbers.
\<close>

theorem is_valid_doc_text_iff:
  "is_valid_doc_text text = spec_is_valid text"
  by (auto simp: is_valid_doc_text_def spec_is_valid_def Let_def ms_patterns_def)

theorem is_valid_doc_text_iff_witness:
  "is_valid_doc_text
     ''Prison Name   Baseline CNA   In Use CNA   Operational Capacity   Population   Report Date: 31/08/2022''
   \<and> spec_is_valid
     ''Prison Name   Baseline CNA   In Use CNA   Operational Capacity   Population   Report Date: 31/08/2022''"
proof -
  have "is_valid_doc_text
     ''Prison Name   Baseline CNA   In Use CNA   Operational Capacity   Population   Report Date: 31/08/2022''"
    by code_simp
  then show ?thesis
    using is_valid_doc_text_iff
      [of "''Prison Name   Baseline CNA   In Use CNA   Operational Capacity   Population   Report Date: 31/08/2022''"]
    by simp
qed

text \<open>
  Claim C10. The keyword test of the oracle is case-sensitive: a text of at least 100
  characters that passes the corruption checks, contains no domain keyword in the
  capitalisation of the list, and has fewer than five data-shaped lines is rejected,
  also when it contains a keyword in lower case.
\<close>

theorem keyword_test_is_case_sensitive:
  assumes "length text \<ge> 100"
    and "5 * length (filter strange_char text) \<le> length text"
    and "count_sub text ''Microsoft Word'' + count_sub text ''Microsoft Office'' \<le> 3"
    and "\<not> list_ex (\<lambda>pattern. contains pattern text) suspicious_patterns"
    and "\<not> list_ex (\<lambda>keyword. contains keyword text) prison_keywords"
    and "length (filter (re_match data_like_pattern) (split_on (CHR 0x0A) text)) < 5"
  shows "\<not> is_valid_doc_text text"
  using assms by (simp add: is_valid_doc_text_def Let_def)

theorem keyword_test_is_case_sensitive_witness:
  "list_ex (\<lambda>keyword. contains (lower keyword)
      (lower ''the prison capacity and population figures of this month are not given in this file; see the next page of it''))
     prison_keywords
   \<and> \<not> is_valid_doc_text
      ''the prison capacity and population figures of this month are not given in this file; see the next page of it''"
proof -
  let ?t = "''the prison capacity and population figures of this month are not given in this file; see the next page of it''"
  have 1: "length ?t \<ge> 100" by simp
  have 2: "5 * length (filter strange_char ?t) \<le> length ?t" by code_simp
  have 3: "count_sub ?t ''Microsoft Word'' + count_sub ?t ''Microsoft Office'' \<le> 3" by code_simp
  have 4: "\<not> list_ex (\<lambda>pattern. contains pattern ?t) suspicious_patterns" by code_simp
  have 5: "\<not> list_ex (\<lambda>keyword. contains keyword ?t) prison_keywords" by code_simp
  have 6: "length (filter (re_match data_like_pattern) (split_on (CHR 0x0A) ?t)) < 5" by code_simp
  have 7: "list_ex (\<lambda>keyword. contains (lower keyword) (lower ?t)) prison_keywords" by code_simp
  show ?thesis using keyword_test_is_case_sensitive[OF 1 2 3 4 5 6] 7 by blast
qed

section \<open>Properties of the string primitives\<close>

lemma startswith_iff: "startswith s p \<longleftrightarrow> (\<exists>t. s = p @ t)"
  by (induction s p rule: startswith.induct) auto

lemma contains_iff: "contains p s \<longleftrightarrow> (\<exists>u v. s = u @ p @ v)"
proof (induction s)
  case Nil
  then show ?case by auto
next
  case (Cons c cs)
  show ?case
  proof
    assume "contains p (c # cs)"
    then consider "startswith (c # cs) p" | "contains p cs" by auto
    then show "\<exists>u v. c # cs = u @ p @ v"
    proof cases
      case 1
      then obtain t where "c # cs = p @ t" by (auto simp: startswith_iff)
      then have "c # cs = [] @ p @ t" by simp
      then show ?thesis by blast
    next
      case 2
      then obtain u v where "cs = u @ p @ v" using Cons.IH by auto
      then have "c # cs = (c # u) @ p @ v" by simp
      then show ?thesis by blast
    qed
  next
    assume "\<exists>u v. c # cs = u @ p @ v"
    then obtain u v where uv: "c # cs = u @ p @ v" by auto
    show "contains p (c # cs)"
    proof (cases u)
      case Nil
      then have "startswith (c # cs) p" using uv by (auto simp: startswith_iff)
      then show ?thesis by simp
    next
      case (Cons a u')
      then have "cs = u' @ p @ v" using uv by simp
      then have "contains p cs" using Cons.IH by blast
      then show ?thesis by simp
    qed
  qed
qed

section \<open>Properties of the line parser\<close>

lemma index_of_mem: "x \<in> set xs \<Longrightarrow> \<exists>i. index_of x xs = Inr i"
  by (induction xs) (auto split: sum.splits)

lemma merge_operational_ok: "\<exists>cs. merge_operational names = Inr cs"
proof (cases "''Operational'' \<in> set names \<and> ''Capacity'' \<in> set names")
  case True
  have "\<exists>i. index_of ''Operational'' names = Inr i"
    using True index_of_mem[of "''Operational''" names] by simp
  then obtain i where i: "index_of ''Operational'' names = Inr i" ..
  have "\<exists>j. index_of ''Capacity'' names = Inr j"
    using True index_of_mem[of "''Capacity''" names] by simp
  then obtain j where j: "index_of ''Capacity'' names = Inr j" ..
  show ?thesis
    unfolding merge_operational_def by (simp only: True i j if_True sum.case split: if_split) simp
next
  case False
  then show ?thesis unfolding merge_operational_def by (simp only: if_False) simp
qed

lemma header_columns_ok: "\<exists>cs. header_columns line nxt = Inr cs"
proof -
  obtain cs where "merge_operational (header_tokens (header_with_continuation line nxt)) = Inr cs"
    using merge_operational_ok[of "header_tokens (header_with_continuation line nxt)"] ..
  then show ?thesis by (simp add: header_columns_def)
qed
lemma scan_step_ok: "\<exists>st'. scan_step st raw nxt = Inr st'"
proof -
  obtain cs where "header_columns (strip raw) nxt = Inr cs"
    using header_columns_ok[of "strip raw" nxt] ..
  then show ?thesis
    unfolding scan_step_def Let_def by (simp split: option.split)
qed




section \<open>Properties of the Date Resolver\<close>








section \<open>Properties of the DOC parser\<close>

text \<open>
  Claim C9, as amended. \<open>extract_data_from_doc\<close> returns the empty frame for every file
  whose base name starts with \<open>~$\<close>, whatever the recovered text of that file or of
  any other file is: the file is skipped and no other file is read in its place. The
  lookup of the file without the marker is made by the Word automation of
  \<open>doc_to_text\<close> (and in the same way by that of \<open>convert_doc_to_docx\<close>), which
  opens that file when it exists; the parser reaches neither for such a file.
\<close>

theorem temp_doc_file_is_skipped:
  "(is_temp_file path \<longrightarrow>
      extract_data_from_doc windows doc_to_text to_float coerce path = empty_df)
   \<and> (is_temp_file path
        \<and> path_exists (path_join (dirname path) (drop 2 (basename path)))
      \<longrightarrow> word_open_path path_exists path
          = path_join (dirname path) (drop 2 (basename path)))"
  by (simp add: extract_data_from_doc_def word_open_path_def is_temp_file_def Let_def)

theorem temp_doc_file_is_skipped_witness:
  "is_temp_file ''/data/~$report.doc''
   \<and> extract_data_from_doc False example_doc_to_text decimal_number decimal_number
        ''/data/~$report.doc'' = (empty_df :: int df)
   \<and> word_open_path example_exists ''/data/~$report.doc'' = ''/data/report.doc''"
proof -
  have b: "basename ''/data/~$report.doc'' = ''~$report.doc''"
    by (simp add: basename_def)
  have d: "dirname ''/data/~$report.doc'' = ''/data''"
    by (simp add: dirname_def)
  have t: "is_temp_file ''/data/~$report.doc''"
    by (simp add: is_temp_file_def b)
  have j: "path_join ''/data'' ''report.doc'' = ''/data/report.doc''"
    by (simp add: path_join_def endswith_def)
  note T = temp_doc_file_is_skipped[of "''/data/~$report.doc''" False example_doc_to_text
      decimal_number decimal_number example_exists]
  have 1: "extract_data_from_doc False example_doc_to_text decimal_number decimal_number
        ''/data/~$report.doc'' = (empty_df :: int df)"
    using T[THEN conjunct1] t by (rule mp)
  have "is_temp_file ''/data/~$report.doc''
        \<and> example_exists
            (path_join (dirname ''/data/~$report.doc'') (drop 2 (basename ''/data/~$report.doc'')))"
    using t by (simp add: b d j example_exists_def)
  with T[THEN conjunct2]
  have "word_open_path example_exists ''/data/~$report.doc''
          = path_join (dirname ''/data/~$report.doc'') (drop 2 (basename ''/data/~$report.doc''))"
    by (rule mp)
  then have 2: "word_open_path example_exists ''/data/~$report.doc'' = ''/data/report.doc''"
    by (simp add: b d j)
  from t 1 2 show ?thesis by (intro conjI)
qed

theorem temp_doc_file_sibling_counterexample:
  "is_temp_file ''/data/~$report.doc''
   \<and> example_exists ''/data/report.doc''
   \<and> extract_data_from_doc False example_doc_to_text decimal_number decimal_number
        ''/data/report.doc''
      = \<lparr>columns = standard_columns,
         rows = [[Str ''Altcourse'', Num 794, Num 794, Num 1133, Num 1100, Null, Null],
                 [Str ''Ashfield'', Num 400, Num 400, Num 416, Num 410, Null, Null]]\<rparr>
   \<and> extract_data_from_doc False example_doc_to_text decimal_number decimal_number
        ''/data/~$report.doc'' = empty_df"
proof -
  define rs where "rs = [[''Altcourse'', ''794'', ''794'', ''1133'', ''1100''],
                        [''Ashfield'', ''400'', ''400'', ''416'', ''410'']]"
  have tmp: "is_temp_file ''/data/~$report.doc''"
    by (simp add: is_temp_file_def basename_def)
  have sib: "\<not> is_temp_file ''/data/report.doc''"
    by (simp add: is_temp_file_def basename_def)
  have rec: "example_doc_to_text ''/data/report.doc'' = example_text"
    by (simp add: example_doc_to_text_def)
  have ne: "example_text \<noteq> []"
    by (simp add: example_text_def)
  have valid: "is_valid_doc_text example_text"
    unfolding example_text_def by code_simp
  have sp: "split_on (CHR 0x0A) example_text
      = [''Prison Name  Baseline CNA  In Use CNA  Operational Capacity  Population'',
         ''Altcourse 794 794 1133 1100'', ''Ashfield 400 400 416 410'']"
    by (simp add: example_text_def)
  have sc: "scan_lines scan_init
       [''Prison Name  Baseline CNA  In Use CNA  Operational Capacity  Population'',
        ''Altcourse 794 794 1133 1100'', ''Ashfield 400 400 416 410'']
      = Inr \<lparr>column_names = Some standard_columns, data = rs,
            in_data_section = True, prison_data_started = True, data_section_ended = False\<rparr>"
    unfolding rs_def
    by (simp add: scan_init_def scan_step_def Let_def strip_def is_space_def ord_def
        is_header_line_def header_columns_def header_tokens_def header_with_continuation_def
        re_split_ws2_def merge_operational_def standard_columns_def has_footer_def
        footer_terms_def is_letter_def row_of_line_def split_ws_def is_numeric_part_def
        is_digit_def endswith_def)
  have rne: "rs \<noteq> []"
    by (simp add: rs_def)
  have val: "validate_prison_data decimal_number rs"
    by (simp add: rs_def validate_prison_data_def Let_def py_isalpha_def is_letter_def ord_def
        decimal_number_def is_digit_def int_of_digits_def digit_val_def)
  have dt: "extract_report_date_from_file (Some example_text) ''/data/report.doc'' = None"
    by (simp add: extract_report_date_from_file_def Let_def content_report_date_def
        example_text_def basename_def lower_def lower_char_def date_from_filename_def)
  have bt: "build_table decimal_number None standard_columns rs
      = Inr \<lparr>columns = standard_columns,
            rows = [[Str ''Altcourse'', Num 794, Num 794, Num 1133, Num 1100, Null, Null],
                    [Str ''Ashfield'', Num 400, Num 400, Num 416, Num 410, Null, Null]]\<rparr>"
    by (simp add: rs_def build_table_def standard_columns_def Let_def adjust_columns_def
        data_frame_def width_def convert_row_def coerce_metric_def clean_metric_def name_cell_def
        decimal_number_def is_digit_def ord_def int_of_digits_def digit_val_def
        set_report_date_def standardize_population_def drop_total_rows_def keep_row_def
        cell_at_def positions_def contains_total_def lower_def lower_char_def)
  have cd: "columns_or_default (Some standard_columns) = standard_columns"
    by (simp add: columns_or_default_def standard_columns_def)
  have "extract_data_from_doc False example_doc_to_text decimal_number decimal_number
        ''/data/report.doc''
      = \<lparr>columns = standard_columns,
         rows = [[Str ''Altcourse'', Num 794, Num 794, Num 1133, Num 1100, Null, Null],
                 [Str ''Ashfield'', Num 400, Num 400, Num 416, Num 410, Null, Null]]\<rparr>"
    unfolding extract_data_from_doc_def
    by (simp add: sib rec ne valid sp sc rne val dt bt cd Let_def del: scan_lines.simps)
  moreover have "extract_data_from_doc False example_doc_to_text decimal_number decimal_number
        ''/data/~$report.doc'' = (empty_df :: int df)"
    unfolding extract_data_from_doc_def by (simp add: tmp)
  moreover have "example_exists ''/data/report.doc''"
    by (simp add: example_exists_def)
  ultimately show ?thesis using tmp by simp
qed

section \<open>Properties of the column count reconciliation\<close>

lemma width_Max: "width rs = Max (set (0 # map length rs))"
  unfolding width_def by (rule Max.set_eq_fold[symmetric])

lemma length_le_width: "r \<in> set rs \<Longrightarrow> length r \<le> width rs"
  unfolding width_Max by (rule Max_ge) simp_all

lemma width_data_frame: "rs \<noteq> [] \<Longrightarrow> width (data_frame rs) = width rs"
proof -
  assume ne: "rs \<noteq> []"
  have "map length (data_frame rs) = map (\<lambda>r. width rs) rs"
    unfolding data_frame_def map_map
  proof (rule map_cong[OF refl])
    fix r assume "r \<in> set rs"
    then have "length r \<le> width rs" by (rule length_le_width)
    then show "(length \<circ> (\<lambda>r. map Some r @ replicate (width rs - length r) None)) r = width rs"
      by simp
  qed
  moreover have "set (map (\<lambda>r. width rs) rs) = {width rs}"
    using ne by (cases rs) auto
  ultimately have "set (0 # map length (data_frame rs)) = {0, width rs}"
    by simp
  then have "width (data_frame rs) = Max {0, width rs}"
    unfolding width_Max[of "data_frame rs"] by simp
  then show ?thesis by simp
qed

lemma take_pad:
  "length r \<le> w \<Longrightarrow> n \<le> w
   \<Longrightarrow> take n (map Some r @ replicate (w - length r) None)
       = take n (map Some r @ replicate (n - length r) None)"
  by (cases "n \<le> length r") (auto simp: min_def)

lemma pad_pad:
  "length r \<le> w \<Longrightarrow> w \<le> n
   \<Longrightarrow> (map Some r @ replicate (w - length r) None) @ replicate (n - w) None
       = take n (map Some r @ replicate (n - length r) None)"
proof -
  assume a: "length r \<le> w" "w \<le> n"
  have "replicate (w - length r) None @ replicate (n - w) (None :: 'a option)
        = replicate (n - length r) None"
    using a by (simp add: replicate_add[symmetric])
  then show ?thesis using a by simp
qed

lemma adjust_data_frame:
  "adjust_columns n (data_frame rs)
   = map (\<lambda>r. take n (map Some r @ replicate (n - length r) None)) rs"
proof (cases "rs = []")
  case True
  then show ?thesis by (simp add: adjust_columns_def data_frame_def)
next
  case False
  have w: "width (data_frame rs) = width rs" using False by (rule width_data_frame)
  consider "width rs > n" | "width rs < n" | "width rs = n" by linarith
  then show ?thesis
  proof cases
    case 1
    then have "adjust_columns n (data_frame rs) = map (take n) (data_frame rs)"
      by (simp add: adjust_columns_def w)
    also have "\<dots> = map (\<lambda>r. take n (map Some r @ replicate (width rs - length r) None)) rs"
      by (simp add: data_frame_def comp_def)
    also have "\<dots> = map (\<lambda>r. take n (map Some r @ replicate (n - length r) None)) rs"
    proof (rule map_cong[OF refl])
      fix r assume "r \<in> set rs"
      then have "length r \<le> width rs" by (rule length_le_width)
      then show "take n (map Some r @ replicate (width rs - length r) None)
          = take n (map Some r @ replicate (n - length r) None)"
        using 1 by (intro take_pad) simp_all
    qed
    finally show ?thesis .
  next
    case 2
    then have "adjust_columns n (data_frame rs)
        = map (\<lambda>r. r @ replicate (n - width rs) None) (data_frame rs)"
      by (simp add: adjust_columns_def w)
    also have "\<dots> = map (\<lambda>r. (map Some r @ replicate (width rs - length r) None)
                               @ replicate (n - width rs) None) rs"
      by (simp add: data_frame_def comp_def)
    also have "\<dots> = map (\<lambda>r. take n (map Some r @ replicate (n - length r) None)) rs"
    proof (rule map_cong[OF refl])
      fix r assume "r \<in> set rs"
      then have "length r \<le> width rs" by (rule length_le_width)
      then show "(map Some r @ replicate (width rs - length r) None) @ replicate (n - width rs) None
          = take n (map Some r @ replicate (n - length r) None)"
        using 2 by (intro pad_pad) simp_all
    qed
    finally show ?thesis .
  next
    case 3
    then have "adjust_columns n (data_frame rs) = data_frame rs"
      by (simp add: adjust_columns_def w)
    also have "\<dots> = map (\<lambda>r. map Some r @ replicate (n - length r) None) rs"
      using 3 by (simp add: data_frame_def)
    also have "\<dots> = map (\<lambda>r. take n (map Some r @ replicate (n - length r) None)) rs"
    proof (rule map_cong[OF refl])
      fix r assume "r \<in> set rs"
      then have "length r \<le> n" using 3 length_le_width[of r rs] by simp
      then show "map Some r @ replicate (n - length r) None
          = take n (map Some r @ replicate (n - length r) None)"
        by simp
    qed
    finally show ?thesis .
  qed
qed

lemma build_table_reconciled:
  "build_table coerce rd cols rs
   = (if \<not> distinct cols then Inl AttributeError else Inr (reconciled_table coerce rd cols rs))"
  by (simp add: build_table_def reconciled_table_def fit_row_def adjust_data_frame Let_def
      comp_def)









section \<open>Properties of the row filter\<close>

lemma positions_head:
  "positions col (col # cs) = 0 # filter (\<lambda>i. (col # cs) ! i = col) [Suc 0..<Suc (length cs)]"
  by (simp add: positions_def upt_conv_Cons del: upt_Suc)

lemma cell_at_head: "cell_at (col # cs) col (x # xs) = x"
  unfolding cell_at_def positions_head by simp

lemma keep_row_head:
  "keep_row (''Prison Name'' # cs) (x # xs) = (x \<noteq> Null \<and> \<not> contains_total x)"
  by (simp add: keep_row_def cell_at_head)

lemma set_column_head:
  assumes "col \<noteq> c0" and "columns d = c0 # cs" and "\<forall>r \<in> set (rows d). r \<noteq> []"
  shows "(\<exists>cs'. columns (set_column col v d) = c0 # cs')
         \<and> map hd (rows (set_column col v d)) = map hd (rows d)
         \<and> (\<forall>r \<in> set (rows (set_column col v d)). r \<noteq> [])"
proof (cases "col \<in> set (columns d)")
  case True
  have "\<And>r. r \<in> set (rows d) \<Longrightarrow>
      hd (map (\<lambda>(c, x). if c = col then v else x) (zip (c0 # cs) r)) = hd r
      \<and> map (\<lambda>(c, x). if c = col then v else x) (zip (c0 # cs) r) \<noteq> []"
  proof -
    fix r assume "r \<in> set (rows d)"
    then have "r \<noteq> []" using assms(3) by simp
    then obtain x xs where "r = x # xs" by (auto simp: neq_Nil_conv)
    then show "hd (map (\<lambda>(c, x). if c = col then v else x) (zip (c0 # cs) r)) = hd r
      \<and> map (\<lambda>(c, x). if c = col then v else x) (zip (c0 # cs) r) \<noteq> []"
      using assms(1) by simp
  qed
  then show ?thesis using True assms(2) by (simp add: set_column_def)
next
  case False
  have "\<And>r. r \<in> set (rows d) \<Longrightarrow> hd (r @ [v]) = hd r"
    using assms(3) by simp
  then show ?thesis using False assms(2) by (simp add: set_column_def)
qed

lemma finish_names:
  assumes ne: "\<forall>r \<in> set fitted. r \<noteq> []"
  shows "map hd (rows (drop_total_rows (standardize_population (set_report_date rd
            \<lparr>columns = ''Prison Name'' # cs,
             rows = map (convert_row coerce (''Prison Name'' # cs)) fitted\<rparr>))))
         = filter (\<lambda>c. c \<noteq> Null \<and> \<not> contains_total c) (map (\<lambda>r. name_cell (hd r)) fitted)"
proof -
  define d0 :: "'a df" where "d0 = \<lparr>columns = ''Prison Name'' # cs,
             rows = map (convert_row coerce (''Prison Name'' # cs)) fitted\<rparr>"
  define d1 where "d1 = set_report_date rd d0"
  define d2 where "d2 = standardize_population d1"
  have conv: "\<And>r. r \<in> set fitted \<Longrightarrow>
     convert_row coerce (''Prison Name'' # cs) r \<noteq> []
     \<and> hd (convert_row coerce (''Prison Name'' # cs) r) = name_cell (hd r)"
  proof -
    fix r assume "r \<in> set fitted"
    then have "r \<noteq> []" using ne by simp
    then obtain x xs where "r = x # xs" by (auto simp: neq_Nil_conv)
    then show "convert_row coerce (''Prison Name'' # cs) r \<noteq> []
     \<and> hd (convert_row coerce (''Prison Name'' # cs) r) = name_cell (hd r)"
      by (simp add: convert_row_def)
  qed
  have c0: "columns d0 = ''Prison Name'' # cs" by (simp add: d0_def)
  have h0: "map hd (rows d0) = map (\<lambda>r. name_cell (hd r)) fitted"
    using conv by (simp add: d0_def)
  have n0: "\<forall>r \<in> set (rows d0). r \<noteq> []"
    using conv by (auto simp: d0_def)
  have s1: "(\<exists>cs'. columns d1 = ''Prison Name'' # cs') \<and> map hd (rows d1) = map hd (rows d0)
         \<and> (\<forall>r \<in> set (rows d1). r \<noteq> [])"
  proof (cases rd)
    case None
    then show ?thesis using c0 n0 by (simp add: d1_def set_report_date_def)
  next
    case (Some dt)
    have "''Report_Date'' \<noteq> ''Prison Name''" by simp
    from set_column_head[OF this c0 n0, of "Day dt"]
    show ?thesis using Some by (simp add: d1_def set_report_date_def)
  qed
  then obtain cs1 where c1: "columns d1 = ''Prison Name'' # cs1" by (elim conjE exE)
  have r2: "rows d2 = rows d1"
    by (simp add: d2_def standardize_population_def rename_column_def)
  have "\<exists>cs2. columns d2 = ''Prison Name'' # cs2"
    using c1 by (simp add: d2_def standardize_population_def rename_column_def)
  then obtain cs2 where c2: "columns d2 = ''Prison Name'' # cs2" ..
  have n2: "\<forall>r \<in> set (rows d2). r \<noteq> []" using s1 r2 by simp
  have k: "\<And>r. r \<in> set (rows d2) \<Longrightarrow>
       keep_row (columns d2) r = (hd r \<noteq> Null \<and> \<not> contains_total (hd r))"
  proof -
    fix r assume "r \<in> set (rows d2)"
    then have "r \<noteq> []" using n2 by simp
    then obtain x xs where "r = x # xs" by (auto simp: neq_Nil_conv)
    then show "keep_row (columns d2) r = (hd r \<noteq> Null \<and> \<not> contains_total (hd r))"
      by (simp add: c2 keep_row_head)
  qed
  have "rows (drop_total_rows d2) = filter (keep_row (columns d2)) (rows d2)"
    by (simp add: drop_total_rows_def c2)
  also have "\<dots> = filter (\<lambda>r. hd r \<noteq> Null \<and> \<not> contains_total (hd r)) (rows d2)"
    using k by (intro filter_cong) simp_all
  finally have "map hd (rows (drop_total_rows d2))
      = filter (\<lambda>c. c \<noteq> Null \<and> \<not> contains_total c) (map hd (rows d2))"
    by (simp add: filter_map comp_def)
  also have "map hd (rows d2) = map (\<lambda>r. name_cell (hd r)) fitted"
    using s1 r2 h0 by simp
  finally show ?thesis unfolding d2_def d1_def d0_def .
qed

lemma fit_row_head: "fit_row (Suc n) (x # xs) = Some x # take n (map Some xs @ replicate (Suc n - length (x # xs)) None)"
  by (simp add: fit_row_def)

lemma reconciled_names:
  assumes ne: "\<forall>r \<in> set rs. r \<noteq> []"
  shows "map hd (rows (reconciled_table coerce rd (''Prison Name'' # cs) rs))
         = map Str (filter (\<lambda>n. \<not> contains ''total'' (lower n)) (map hd rs))"
proof -
  have f: "\<And>r. r \<in> set rs \<Longrightarrow>
      fit_row (Suc (length cs)) r \<noteq> [] \<and> hd (fit_row (Suc (length cs)) r) = Some (hd r)"
  proof -
    fix r assume "r \<in> set rs"
    then have "r \<noteq> []" using ne by simp
    then obtain x xs where "r = x # xs" by (auto simp: neq_Nil_conv)
    then show "fit_row (Suc (length cs)) r \<noteq> [] \<and> hd (fit_row (Suc (length cs)) r) = Some (hd r)"
      by (simp add: fit_row_head)
  qed
  have n: "\<forall>r \<in> set (map (fit_row (Suc (length cs))) rs). r \<noteq> []"
    using f by auto
  have "rows (reconciled_table coerce rd (''Prison Name'' # cs) rs)
      = rows (drop_total_rows (standardize_population (set_report_date rd
            \<lparr>columns = ''Prison Name'' # cs,
             rows = map (convert_row coerce (''Prison Name'' # cs))
                      (map (fit_row (Suc (length cs))) rs)\<rparr>)))"
    by (simp add: reconciled_table_def comp_def)
  then have "map hd (rows (reconciled_table coerce rd (''Prison Name'' # cs) rs))
      = filter (\<lambda>c. c \<noteq> Null \<and> \<not> contains_total c)
          (map (\<lambda>r. name_cell (hd r)) (map (fit_row (Suc (length cs))) rs))"
    using finish_names[OF n, of rd cs coerce] by simp
  also have "map (\<lambda>r. name_cell (hd r)) (map (fit_row (Suc (length cs))) rs)
      = map (\<lambda>r. Str (hd r)) rs"
    using f by (simp add: name_cell_def)
  also have "filter (\<lambda>c. c \<noteq> Null \<and> \<not> contains_total c) (map (\<lambda>r. Str (hd r)) rs)
      = map Str (filter (\<lambda>n. \<not> contains ''total'' (lower n)) (map hd rs))"
    by (induction rs) (simp_all add: contains_total_def)
  finally show ?thesis .
qed

lemma row_of_line_nonempty: "row_of_line line = Some row \<Longrightarrow> row \<noteq> []"
  by (auto simp: row_of_line_def Let_def split: option.splits if_splits)

lemma scan_step_rows:
  assumes "scan_step st raw nxt = Inr st'" and "\<forall>r \<in> set (data st). r \<noteq> []"
  shows "\<forall>r \<in> set (data st'). r \<noteq> []"
proof (cases "row_of_line (strip raw)")
  case None
  then have "data st' = data st"
    using assms(1) by (auto simp: scan_step_def Let_def split: if_splits sum.splits)
  then show ?thesis using assms(2) by simp
next
  case (Some row)
  then have "row \<noteq> []" by (rule row_of_line_nonempty)
  moreover have "data st' = data st \<or> data st' = data st @ [row]"
    using assms(1) Some by (auto simp: scan_step_def Let_def split: if_splits sum.splits)
  ultimately show ?thesis using assms(2) by auto
qed

lemma scan_lines_rows:
  "scan_lines st ls = Inr st' \<Longrightarrow> \<forall>r \<in> set (data st). r \<noteq> []
   \<Longrightarrow> \<forall>r \<in> set (data st'). r \<noteq> []"
proof (induction ls arbitrary: st)
  case Nil
  then show ?case by simp
next
  case (Cons l ls)
  obtain st1 where s1: "scan_step st l (case ls of [] \<Rightarrow> None | n # _ \<Rightarrow> Some n) = Inr st1"
    using scan_step_ok[of st l "case ls of [] \<Rightarrow> None | n # _ \<Rightarrow> Some n"] ..
  then have "scan_lines st1 ls = Inr st'" using Cons.prems(1) by simp
  moreover have "\<forall>r \<in> set (data st1). r \<noteq> []"
    using scan_step_rows[OF s1 Cons.prems(2)] .
  ultimately show ?case by (rule Cons.IH)
qed

lemma scan_rows_nonempty:
  "scan_lines scan_init ls = Inr st \<Longrightarrow> \<forall>r \<in> set (data st). r \<noteq> []"
  using scan_lines_rows[of scan_init ls st] by (simp add: scan_init_def)

lemma rtf_names:
  assumes sc: "scan_lines scan_init (split_on (CHR 0x0A) recovered) = Inr st"
    and cols: "columns_or_default (column_names st) = ''Prison Name'' # cs"
    and dist: "distinct (''Prison Name'' # cs)"
  shows "map hd (rows (extract_data_from_rtf coerce rd recovered))
         = map Str (filter (\<lambda>n. \<not> contains ''total'' (lower n)) (map hd (data st)))"
proof (cases "data st = []")
  case True
  then have "extract_data_from_rtf coerce rd recovered = empty_df"
    using sc by (simp add: extract_data_from_rtf_def)
  then show ?thesis using True by (simp add: empty_df_def)
next
  case False
  have "build_table coerce rd (''Prison Name'' # cs) (data st)
        = Inr (reconciled_table coerce rd (''Prison Name'' # cs) (data st))"
    using dist by (simp add: build_table_reconciled)
  then have "extract_data_from_rtf coerce rd recovered
        = reconciled_table coerce rd (''Prison Name'' # cs) (data st)"
    using sc False cols by (simp add: extract_data_from_rtf_def)
  then show ?thesis
    using reconciled_names[OF scan_rows_nonempty[OF sc], of coerce rd cs] by simp
qed

lemma doc_names:
  assumes nt: "\<not> is_temp_file path"
    and ne: "doc_to_text path \<noteq> []"
    and ok: "is_valid_doc_text (doc_to_text path)"
    and sc: "scan_lines scan_init (split_on (CHR 0x0A) (doc_to_text path)) = Inr st"
    and va: "validate_prison_data to_float (data st)"
    and cols: "columns_or_default (column_names st) = ''Prison Name'' # cs"
    and dist: "distinct (''Prison Name'' # cs)"
  shows "map hd (rows (extract_data_from_doc windows doc_to_text to_float coerce path))
         = map Str (filter (\<lambda>n. \<not> contains ''total'' (lower n)) (map hd (data st)))"
proof (cases "data st = []")
  case True
  then have "extract_data_from_doc windows doc_to_text to_float coerce path = empty_df"
    using nt ne ok sc by (simp add: extract_data_from_doc_def Let_def)
  then show ?thesis using True by (simp add: empty_df_def)
next
  case False
  have "build_table coerce (extract_report_date_from_file (Some (doc_to_text path)) path)
          (''Prison Name'' # cs) (data st)
        = Inr (reconciled_table coerce
                 (extract_report_date_from_file (Some (doc_to_text path)) path)
                 (''Prison Name'' # cs) (data st))"
    using dist by (simp add: build_table_reconciled)
  then have "extract_data_from_doc windows doc_to_text to_float coerce path
        = reconciled_table coerce
            (extract_report_date_from_file (Some (doc_to_text path)) path)
            (''Prison Name'' # cs) (data st)"
    using nt ne ok sc va False cols by (simp add: extract_data_from_doc_def Let_def)
  then show ?thesis
    using reconciled_names[OF scan_rows_nonempty[OF sc], of coerce _ cs] by simp
qed

lemma fit_pdf_row_length: "fit_pdf_row row_data = Some r \<Longrightarrow> length r = 7"
  by (auto simp: fit_pdf_row_def Let_def default_columns_def split: if_splits)

lemma pdf_add_row_rows:
  "\<forall>r \<in> set (data_rows st). r \<noteq> [] \<Longrightarrow> \<forall>r \<in> set (data_rows (pdf_add_row st row_data)). r \<noteq> []"
  using fit_pdf_row_length[of row_data]
  by (auto simp: pdf_add_row_def split: option.splits)

lemma pdf_step_rows:
  assumes "\<forall>r \<in> set (data_rows st). r \<noteq> []"
  shows "\<forall>r \<in> set (data_rows (pdf_step st raw)). r \<noteq> []"
proof -
  have a: "\<And>row_data. \<forall>r \<in> set (data_rows (pdf_add_row st row_data)). r \<noteq> []"
    using assms by (rule pdf_add_row_rows)
  have b: "\<And>row_data. \<forall>r \<in> set (data_rows (pdf_add_row (st\<lparr>current_prison := None\<rparr>) row_data)). r \<noteq> []"
    using assms by (intro pdf_add_row_rows) simp
  show ?thesis
    unfolding pdf_step_def Let_def
    using assms a b by (simp split: option.split)
qed

lemma pdf_fold_rows:
  "\<forall>r \<in> set (data_rows st). r \<noteq> []
   \<Longrightarrow> \<forall>r \<in> set (data_rows (fold (\<lambda>l st. pdf_step st l) ls st)). r \<noteq> []"
proof (induction ls arbitrary: st)
  case Nil
  then show ?case by simp
next
  case (Cons l ls)
  have "\<forall>r \<in> set (data_rows (pdf_step st l)). r \<noteq> []"
    using Cons.prems by (rule pdf_step_rows)
  then have "\<forall>r \<in> set (data_rows (fold (\<lambda>l st. pdf_step st l) ls (pdf_step st l))). r \<noteq> []"
    by (rule Cons.IH)
  then show ?case by simp
qed

lemma pdf_all_data_rows: "\<forall>r \<in> set (pdf_all_data pages). r \<noteq> []"
proof -
  have "\<And>text. \<forall>r \<in> set (pdf_page_rows text). r \<noteq> []"
    unfolding pdf_page_rows_def by (rule pdf_fold_rows) (simp add: pdf_init_def)
  then show ?thesis by (auto simp: pdf_all_data_def)
qed

lemma pdf_table_names:
  assumes t: "pdf_table coerce rd all_data = Inr d"
    and ne: "\<forall>r \<in> set all_data. r \<noteq> []"
  shows "map hd (rows d)
         = filter (\<lambda>c. c \<noteq> Null \<and> \<not> contains_total c) (map (\<lambda>r. name_cell (hd r)) all_data)"
proof (cases "all_data = []")
  case True
  then have "d = empty_df" using t by (simp add: pdf_table_def)
  then show ?thesis using True by (simp add: empty_df_def)
next
  case False
  define cs where "cs = tl default_columns"
  have dc: "default_columns = ''Prison Name'' # cs"
    by (simp add: cs_def default_columns_def)
  define padded where
    "padded = map (\<lambda>r. r @ replicate (length default_columns - length r) None) all_data"
  have pn: "\<forall>r \<in> set padded. r \<noteq> []" using ne by (simp add: padded_def)
  have "d = drop_total_rows (standardize_population (set_report_date rd
              \<lparr>columns = default_columns,
               rows = map (convert_row coerce default_columns) padded\<rparr>))"
    using t False by (simp add: pdf_table_def Let_def padded_def split: if_splits)
  then have "map hd (rows d)
      = filter (\<lambda>c. c \<noteq> Null \<and> \<not> contains_total c) (map (\<lambda>r. name_cell (hd r)) padded)"
    using finish_names[OF pn, of rd cs coerce] by (simp only: dc)
  also have "map (\<lambda>r. name_cell (hd r)) padded = map (\<lambda>r. name_cell (hd r)) all_data"
    using ne by (simp add: padded_def)
  finally show ?thesis .
qed

lemma pdf_names:
  assumes t: "extract_data_from_pdf coerce rd relaxed pages = Inr d"
    and ne: "\<forall>r \<in> set relaxed. r \<noteq> []"
  shows "map hd (rows d)
         = filter (\<lambda>c. c \<noteq> Null \<and> \<not> contains_total c)
             (map (\<lambda>r. name_cell (hd r))
                (if pdf_all_data pages = [] then relaxed else pdf_all_data pages))"
proof -
  have "\<forall>r \<in> set (if pdf_all_data pages = [] then relaxed else pdf_all_data pages). r \<noteq> []"
    using ne pdf_all_data_rows[of pages] by simp
  moreover have "pdf_table coerce rd (if pdf_all_data pages = [] then relaxed else pdf_all_data pages)
                 = Inr d"
    using t by (simp add: extract_data_from_pdf_def Let_def)
  ultimately show ?thesis using pdf_table_names by blast
qed

lemma dropna_all_rows:
  "r \<in> set (rows (dropna_all cs d)) \<Longrightarrow> \<exists>col \<in> set cs. cell_at (columns d) col r \<noteq> Null"
  by (auto simp: dropna_all_def list_all_iff)

lemma dropna_all_columns: "columns (dropna_all cs d) = columns d"
  by (simp add: dropna_all_def)

lemma if_chain: "x = (if a then e else if b then e else if c then e else d) \<Longrightarrow> x = e \<or> x = d"
  by (simp split: if_splits)

lemma ods_shape:
  "extract_data_from_ods coerce rd grid = empty_df
   \<or> (\<exists>d3. extract_data_from_ods coerce rd grid
            = (if filter (\<lambda>col. col \<in> set (columns d3)) numeric_columns \<noteq> []
               then dropna_all (filter (\<lambda>col. col \<in> set (columns d3)) numeric_columns) d3
               else d3))"
proof (cases "find_header_row grid")
  case (Inl e)
  then have "extract_data_from_ods coerce rd grid = empty_df"
    unfolding extract_data_from_ods_def by (simp only: sum.case)
  then show ?thesis ..
next
  case (Inr found)
  show ?thesis
  proof (cases found)
    case None
    then have "extract_data_from_ods coerce rd grid = empty_df"
      unfolding extract_data_from_ods_def using Inr by (simp only: sum.case option.case)
    then show ?thesis ..
  next
    case (Some hb)
    obtain headers body where hb: "hb = (headers, body)" by (cases hb)
    define cols where "cols = map label_of headers"
    define d1 where "d1 = set_report_date rd
        \<lparr>columns = cols,
         rows = (if ''Prison Name'' \<in> set cols
                 then cut_at_total cols (map (ods_convert_row coerce cols) body)
                 else map (ods_convert_row coerce cols) body)\<rparr>"
    define d3 where "d3 =
        (if ''Prison Name'' \<in> set (columns (select_columns (filter (\<lambda>col. col \<in> set (columns d1)) ods_columns) d1))
         then dropna_col ''Prison Name'' (select_columns (filter (\<lambda>col. col \<in> set (columns d1)) ods_columns) d1)
         else select_columns (filter (\<lambda>col. col \<in> set (columns d1)) ods_columns) d1)"
    define d4 where "d4 =
        (if filter (\<lambda>col. col \<in> set (columns d3)) numeric_columns \<noteq> []
         then dropna_all (filter (\<lambda>col. col \<in> set (columns d3)) numeric_columns) d3
         else d3)"
    have "extract_data_from_ods coerce rd grid
          = (if list_ex (\<lambda>col. length (positions col cols) > 1) (''Prison Name'' # numeric_columns)
             then empty_df
             else if ''Report_Date'' \<notin> set (columns d1) then empty_df
             else if df_empty d4 then empty_df else d4)"
      unfolding extract_data_from_ods_def Let_def d4_def d3_def d1_def cols_def
      using Inr Some hb by (simp only: sum.case option.case prod.case)
    then have "extract_data_from_ods coerce rd grid = empty_df
               \<or> extract_data_from_ods coerce rd grid = d4"
      by (rule if_chain)
    then show ?thesis unfolding d4_def by blast
  qed
qed

lemma ods_names:
  assumes a: "filter (\<lambda>col. col \<in> set (columns (extract_data_from_ods coerce rd grid)))
                numeric_columns \<noteq> []"
    and r: "r \<in> set (rows (extract_data_from_ods coerce rd grid))"
  shows "\<exists>col \<in> set numeric_columns.
           col \<in> set (columns (extract_data_from_ods coerce rd grid))
           \<and> cell_at (columns (extract_data_from_ods coerce rd grid)) col r \<noteq> Null"
proof -
  consider (e) "extract_data_from_ods coerce rd grid = empty_df"
    | (d) d3 where "extract_data_from_ods coerce rd grid
            = (if filter (\<lambda>col. col \<in> set (columns d3)) numeric_columns \<noteq> []
               then dropna_all (filter (\<lambda>col. col \<in> set (columns d3)) numeric_columns) d3
               else d3)"
    using ods_shape[of coerce rd grid] by blast
  then show ?thesis
  proof cases
    case e
    then show ?thesis using r by (simp add: empty_df_def)
  next
    case d
    have c: "columns (extract_data_from_ods coerce rd grid) = columns d3"
      using d by (simp add: dropna_all_columns)
    then have av: "filter (\<lambda>col. col \<in> set (columns d3)) numeric_columns \<noteq> []"
      using a by simp
    then have "r \<in> set (rows (dropna_all (filter (\<lambda>col. col \<in> set (columns d3)) numeric_columns) d3))"
      using d r by simp
    then obtain col where "col \<in> set (filter (\<lambda>col. col \<in> set (columns d3)) numeric_columns)"
      and "cell_at (columns d3) col r \<noteq> Null"
      using dropna_all_rows by blast
    then show ?thesis using c by auto
  qed
qed

text \<open>
  Claim C3, as amended. A metric cell whose coercion fails becomes null. In the RTF and
  DOCX parsers, and in the DOC parser when its validator accepts the rows, with
  distinct column names of which \<open>Prison Name\<close> is the first, the names of the final
  table are the names of the assembled rows that do not contain \<open>total\<close> in any case,
  in their order, whatever the coercion does to the metric cells. In the PDF parser the
  names of the final table are those of the assembled rows that are not null and do
  not contain \<open>total\<close>. In the ODS parser every row of the result has a cell that is
  not null in one of the numeric columns of the result, when it has such a column:
  there a row whose numeric cells all fail the coercion is dropped.
\<close>

theorem rows_are_dropped_by_name:
  "(coerce (clean_metric s) = None \<longrightarrow> coerce_metric coerce (Some s) = Null)
   \<and> (scan_lines scan_init (split_on (CHR 0x0A) recovered) = Inr st
        \<and> columns_or_default (column_names st) = ''Prison Name'' # cs
        \<and> distinct (''Prison Name'' # cs) \<longrightarrow>
        map hd (rows (extract_data_from_rtf coerce rd recovered))
        = map Str (filter (\<lambda>n. \<not> contains ''total'' (lower n)) (map hd (data st))))
   \<and> (\<not> is_temp_file path \<and> doc_to_text path \<noteq> [] \<and> is_valid_doc_text (doc_to_text path)
        \<and> scan_lines scan_init (split_on (CHR 0x0A) (doc_to_text path)) = Inr st'
        \<and> validate_prison_data to_float (data st')
        \<and> columns_or_default (column_names st') = ''Prison Name'' # cs'
        \<and> distinct (''Prison Name'' # cs') \<longrightarrow>
        map hd (rows (extract_data_from_doc windows doc_to_text to_float coerce path))
        = map Str (filter (\<lambda>n. \<not> contains ''total'' (lower n)) (map hd (data st'))))
   \<and> (extract_data_from_pdf coerce rd relaxed pages = Inr d \<and> (\<forall>r \<in> set relaxed. r \<noteq> []) \<longrightarrow>
        map hd (rows d)
        = filter (\<lambda>c. c \<noteq> Null \<and> \<not> contains_total c)
            (map (\<lambda>r. name_cell (hd r))
               (if pdf_all_data pages = [] then relaxed else pdf_all_data pages)))
   \<and> (filter (\<lambda>col. col \<in> set (columns (extract_data_from_ods coerce rd grid)))
          numeric_columns \<noteq> []
        \<and> r \<in> set (rows (extract_data_from_ods coerce rd grid)) \<longrightarrow>
        (\<exists>col \<in> set numeric_columns.
           col \<in> set (columns (extract_data_from_ods coerce rd grid))
           \<and> cell_at (columns (extract_data_from_ods coerce rd grid)) col r \<noteq> Null))"
proof -
  have 1: "coerce (clean_metric s) = None \<longrightarrow> coerce_metric coerce (Some s) = Null"
    by (simp add: coerce_metric_def)
  have 2: "scan_lines scan_init (split_on (CHR 0x0A) recovered) = Inr st
        \<and> columns_or_default (column_names st) = ''Prison Name'' # cs
        \<and> distinct (''Prison Name'' # cs) \<longrightarrow>
        map hd (rows (extract_data_from_rtf coerce rd recovered))
        = map Str (filter (\<lambda>n. \<not> contains ''total'' (lower n)) (map hd (data st)))"
    using rtf_names[of recovered st cs coerce rd] by (intro impI) (elim conjE)
  have 3: "\<not> is_temp_file path \<and> doc_to_text path \<noteq> [] \<and> is_valid_doc_text (doc_to_text path)
        \<and> scan_lines scan_init (split_on (CHR 0x0A) (doc_to_text path)) = Inr st'
        \<and> validate_prison_data to_float (data st')
        \<and> columns_or_default (column_names st') = ''Prison Name'' # cs'
        \<and> distinct (''Prison Name'' # cs') \<longrightarrow>
        map hd (rows (extract_data_from_doc windows doc_to_text to_float coerce path))
        = map Str (filter (\<lambda>n. \<not> contains ''total'' (lower n)) (map hd (data st')))"
    using doc_names[of path doc_to_text st' to_float cs' windows coerce]
    by (intro impI) (elim conjE)
  have 4: "extract_data_from_pdf coerce rd relaxed pages = Inr d \<and> (\<forall>r \<in> set relaxed. r \<noteq> []) \<longrightarrow>
        map hd (rows d)
        = filter (\<lambda>c. c \<noteq> Null \<and> \<not> contains_total c)
            (map (\<lambda>r. name_cell (hd r))
               (if pdf_all_data pages = [] then relaxed else pdf_all_data pages))"
    using pdf_names[of coerce rd relaxed pages d] by (intro impI) (elim conjE)
  have 5: "filter (\<lambda>col. col \<in> set (columns (extract_data_from_ods coerce rd grid)))
          numeric_columns \<noteq> []
        \<and> r \<in> set (rows (extract_data_from_ods coerce rd grid)) \<longrightarrow>
        (\<exists>col \<in> set numeric_columns.
           col \<in> set (columns (extract_data_from_ods coerce rd grid))
           \<and> cell_at (columns (extract_data_from_ods coerce rd grid)) col r \<noteq> Null)"
    using ods_names[of coerce rd grid r] by (intro impI) (elim conjE)
  from 1 2 3 4 5 show ?thesis by (intro conjI)
qed

end
